theory Spec2Isabelle
  imports Complex_Main "HOL-Library.Sublist"
begin

section \<open>JavaScript values\<close>

text \<open>
  Form data, rule operands and the \<open>Mixed\<close> paths of the Mongoose schemas hold JSON-like
  JavaScript values. A JavaScript number is an IEEE double: every finite double is a
  rational, so \<open>Fin\<close> carries its exact value (both zeros are \<open>Fin 0\<close>; the code
  below only compares numbers and never divides by them). \<open>JInherited n\<close> is what a plain
  object gives for a key \<open>n\<close> it does not own but inherits from \<open>Object.prototype\<close>: a
  built-in function, or the prototype itself for \<open>__proto__\<close>.
\<close>

datatype jsnum = NaN | NegInf | Fin rat | PosInf

datatype jsval =
    JUndefined
  | JNull
  | JBool bool
  | JNum jsnum
  | JStr string
  | JArr "jsval list"
  | JObj "(string \<times> jsval) list"
  | JInherited string

section \<open>Data model (server/models)\<close>

type_synonym oid = nat

text \<open>A \<open>Date\<close>: its time value in milliseconds and what \<open>getFullYear()\<close> and
  \<open>getMonth()\<close> return for it in the server's time zone.\<close>

record jsdate =
  getTime :: nat
  getFullYear :: nat
  getMonth :: nat

record user =
  uid :: oid
  role :: string
  user_organization :: "string option"

record workflow_entry =
  h_stage :: string
  h_user :: oid
  h_action :: string
  h_comment :: "string option"
  h_timestamp :: jsdate

record audit_entry =
  a_user :: oid
  a_action :: string
  a_field :: string
  a_oldValue :: string
  a_newValue :: string
  a_timestamp :: jsdate

text \<open>The paths of \<open>metadata\<close> that \<open>createSubmission\<close> computes from the request.\<close>

record submission_metadata =
  userAgent :: string
  browser :: string
  os :: string
  device :: string

text \<open>The paths of \<open>submissionSchema\<close> that the controllers below read or write.\<close>

record submission =
  sid :: oid
  form :: oid
  parentSubmission :: "oid option"
  masterSubmission :: "oid option"
  submissionNumber :: "string option"
  data :: jsval
  files :: "string list"
  submittedBy :: oid
  currentStage :: string
  workflowHistory :: "workflow_entry list"
  status :: string
  priority :: string
  completedAt :: "jsdate option"
  completedBy :: "oid option"
  organization :: string
  formVersion :: nat
  auditLog :: "audit_entry list"
  isDeleted :: bool
  deletedAt :: "jsdate option"
  deletedBy :: "oid option"
  updatedAt :: "jsdate option"
  lastModifiedBy :: "oid option"
  metadata :: "submission_metadata option"

text \<open>\<open>stageSchema\<close> and \<open>workflowSchema\<close> (models/Workflow.js).\<close>

record stage_action =
  act_id :: string
  act_name :: string
  nextStage :: string
  requireComment :: bool

record stage =
  stage_id :: string
  stage_name :: string
  allowedRoles :: "string list"
  allowedUsers :: "oid list"
  actions :: "stage_action list"

record workflow =
  wid :: oid
  stages :: "stage list"
  initialStage :: string
  finalStages :: "string list"

text \<open>\<open>formSchema\<close>: type, master/detail link, settings and permission policies.\<close>

record master_form =
  mf_formId :: "oid option"
  cascadeDelete :: bool

record form_policy =
  public :: bool
  roles :: "string list"
  users :: "oid list"

record submission_policy =
  sp_roles :: "string list"
  sp_users :: "oid list"
  ownSubmissionsOnly :: bool

record permissions =
  viewForm :: form_policy
  submitForm :: form_policy
  editSubmissions :: submission_policy
  viewSubmissions :: submission_policy
  deleteSubmissions :: submission_policy

record scheduling =
  sch_enabled :: bool
  startDate :: "nat option"
  endDate :: "nat option"
  closedMessage :: "string option"

record quotas =
  q_enabled :: bool
  maxSubmissions :: "nat option"
  quotaReachedMessage :: "string option"

record settings =
  allowMultipleSubmissions :: bool
  requireLogin :: bool
  scheduling_of :: "scheduling option"
  quotas_of :: "quotas option"

record form_doc =
  fid :: oid
  form_type :: string
  masterForm :: "master_form option"
  form_settings :: settings
  form_workflow :: "oid option"
  form_permissions :: permissions
  isActive :: bool
  version :: nat
  analytics_submissions :: nat

text \<open>The three collections the controllers see.\<close>

record database =
  submissions :: "submission list"
  forms :: "form_doc list"
  workflows :: "workflow list"

datatype error =
    ValidationError string
  | DuplicateKey string
  | TypeError string
  | SyntaxError string
  | CastError string

fun message :: "error \<Rightarrow> string" where
  "message (ValidationError m) = m"
| "message (DuplicateKey m) = m"
| "message (TypeError m) = m"
| "message (SyntaxError m) = m"
| "message (CastError m) = m"

text \<open>What a controller sends: \<open>res.status(c).json({success: true, ...})\<close> or
  \<open>res.status(c).json({success: false, message})\<close>.\<close>

datatype response = Ok nat | Fail nat string

section \<open>Strings and numbers of the host language\<close>

definition truthy_str :: "string option \<Rightarrow> bool" where
  "truthy_str s = (case s of None \<Rightarrow> False | Some t \<Rightarrow> t \<noteq> [])"

text \<open>\<open>a || b\<close> on an optional string \<open>a\<close>.\<close>

definition or_else :: "string option \<Rightarrow> string \<Rightarrow> string" where
  "or_else a b = (case a of None \<Rightarrow> b | Some t \<Rightarrow> if t = [] then b else t)"

definition digit_char :: "nat \<Rightarrow> char" where
  "digit_char d = ''0123456789'' ! d"

text \<open>\<open>String(n)\<close> for a non-negative integer below \<open>10^21\<close>, where JavaScript prints
  plain decimal digits.\<close>

function showNat :: "nat \<Rightarrow> string" where
  "showNat n = (if n < 10 then [digit_char n] else showNat (n div 10) @ [digit_char (n mod 10)])"
  by pat_completeness auto
termination
  by (relation "measure id") auto

declare showNat.simps [simp del]

definition showInt :: "int \<Rightarrow> string" where
  "showInt i = (if i < 0 then CHR ''-'' # showNat (nat (- i)) else showNat (nat i))"

text \<open>\<open>String(x)\<close> where \<open>x\<close> is an integer or \<open>NaN\<close> (\<open>None\<close>).\<close>

definition showSeq :: "int option \<Rightarrow> string" where
  "showSeq x = (case x of None \<Rightarrow> ''NaN'' | Some i \<Rightarrow> showInt i)"

definition padStart :: "nat \<Rightarrow> char \<Rightarrow> string \<Rightarrow> string" where
  "padStart n c s = replicate (n - length s) c @ s"

definition digit_val :: "char \<Rightarrow> nat option" where
  "digit_val c = map_of
     [(CHR ''0'', 0), (CHR ''1'', 1), (CHR ''2'', 2), (CHR ''3'', 3), (CHR ''4'', 4),
      (CHR ''5'', 5), (CHR ''6'', 6), (CHR ''7'', 7), (CHR ''8'', 8), (CHR ''9'', 9),
      (CHR ''a'', 10), (CHR ''b'', 11), (CHR ''c'', 12), (CHR ''d'', 13), (CHR ''e'', 14),
      (CHR ''f'', 15), (CHR ''A'', 10), (CHR ''B'', 11), (CHR ''C'', 12), (CHR ''D'', 13),
      (CHR ''E'', 14), (CHR ''F'', 15)] c"

fun parse_digits :: "nat \<Rightarrow> string \<Rightarrow> nat option \<Rightarrow> nat option" where
  "parse_digits r [] acc = acc"
| "parse_digits r (c # cs) acc =
     (case digit_val c of
        None \<Rightarrow> acc
      | Some d \<Rightarrow>
          if d < r
          then parse_digits r cs (Some (case acc of None \<Rightarrow> d | Some a \<Rightarrow> a * r + d))
          else acc)"

definition is_space :: "char \<Rightarrow> bool" where
  "is_space c = (c \<in> set [CHR '' '', CHR 0x09, CHR 0x0A, CHR 0x0B, CHR 0x0C, CHR 0x0D])"

text \<open>\<open>parseInt(s)\<close> without a radix: leading white space, a sign, a \<open>0x\<close> prefix,
  then the longest run of digits; \<open>None\<close> is \<open>NaN\<close>. Values are exact (below \<open>2^53\<close>).\<close>

definition parseInt :: "string \<Rightarrow> int option" where
  "parseInt s =
     (let s1 = dropWhile is_space s;
          neg = (take 1 s1 = ''-'');
          s2 = (if take 1 s1 = ''-'' \<or> take 1 s1 = ''+'' then drop 1 s1 else s1);
          hex = (take 2 s2 = ''0x'' \<or> take 2 s2 = ''0X'');
          r = (if hex then 16 else 10);
          s3 = (if hex then drop 2 s2 else s2)
      in map_option (\<lambda>n. if neg then - int n else int n) (parse_digits r s3 None))"

text \<open>\<open>s.split(c)\<close> for a one-character separator.\<close>

fun split_on :: "char \<Rightarrow> string \<Rightarrow> string list" where
  "split_on c [] = [[]]"
| "split_on c (x # xs) =
     (if x = c then [] # split_on c xs
      else (case split_on c xs of [] \<Rightarrow> [[x]] | y # ys \<Rightarrow> (x # y) # ys))"

text \<open>\<open>xs[i]\<close>: \<open>None\<close> is \<open>undefined\<close>.\<close>

definition index :: "'a list \<Rightarrow> nat \<Rightarrow> 'a option" where
  "index xs i = (if i < length xs then Some (xs ! i) else None)"

text \<open>The order MongoDB sorts strings by (code point by code point).\<close>

fun str_less :: "string \<Rightarrow> string \<Rightarrow> bool" where
  "str_less [] [] = False"
| "str_less [] (y # ys) = True"
| "str_less (x # xs) [] = False"
| "str_less (x # xs) (y # ys) =
     (if (of_char x :: nat) < of_char y then True
      else if (of_char y :: nat) < of_char x then False
      else str_less xs ys)"

text \<open>A regular expression \<open>^p\<close> whose \<open>p\<close> has no special character.\<close>

definition starts_with :: "string \<Rightarrow> string \<Rightarrow> bool" where
  "starts_with p s = (take (length p) s = p)"

text \<open>\<open>hay.includes(needle)\<close> on strings.\<close>

fun includes_str :: "string \<Rightarrow> string \<Rightarrow> bool" where
  "includes_str [] needle = (needle = [])"
| "includes_str (h # hs) needle = (starts_with needle (h # hs) \<or> includes_str hs needle)"

section \<open>Submission model: the pre-save hook, create and save\<close>

definition status_enum :: "string list" where
  "status_enum = [''draft'', ''submitted'', ''in_review'', ''approved'', ''rejected'',
                  ''returned'', ''completed'', ''archived'']"

definition priority_enum :: "string list" where
  "priority_enum = [''low'', ''medium'', ''high'', ''urgent'', ''critical'']"

text \<open>Schema validation of the enumerated paths a controller can set. Mongoose validates
  the paths that were modified; a stored document satisfies the schema, so checking
  both paths of the whole document gives the same answer.\<close>

definition validate :: "submission \<Rightarrow> error option" where
  "validate doc =
     (if status doc \<notin> set status_enum
      then Some (ValidationError ''Submission validation failed: status'')
      else if priority doc \<notin> set priority_enum
      then Some (ValidationError ''Submission validation failed: priority'')
      else None)"

text \<open>\<open>SUB-${year}${month}-\<close> with \<open>month = String(date.getMonth() + 1).padStart(2, '0')\<close>.\<close>

definition period_prefix :: "jsdate \<Rightarrow> string" where
  "period_prefix now =
     ''SUB-'' @ showNat (getFullYear now) @ padStart 2 CHR ''0'' (showNat (getMonth now + 1)) @ ''-''"

text \<open>\<open>findOne({submissionNumber: /^SUB-YYYYMM-/}).sort({submissionNumber: -1})\<close>:
  the stored submission of the period with the greatest number string.\<close>

definition findLast :: "string \<Rightarrow> submission list \<Rightarrow> submission option" where
  "findLast pre subs =
     fold (\<lambda>s best.
             case submissionNumber s of
               None \<Rightarrow> best
             | Some n \<Rightarrow>
                 if starts_with pre n
                 then (case best of
                         None \<Rightarrow> Some s
                       | Some b \<Rightarrow> if str_less (the (submissionNumber b)) n then Some s else best)
                 else best)
          subs None"

definition next_sequence :: "submission option \<Rightarrow> int option" where
  "next_sequence lastSubmission =
     (case lastSubmission of
        None \<Rightarrow> Some 1
      | Some l \<Rightarrow>
          (case index (split_on CHR ''-'' (the (submissionNumber l))) 2 of
             None \<Rightarrow> None
           | Some seg \<Rightarrow> map_option (\<lambda>lastSequence. lastSequence + 1) (parseInt seg)))"

text \<open>\<open>submissionSchema.pre('save')\<close>. \<open>isNew\<close> is the document's Mongoose flag,
  \<open>subs\<close> the collection the hook's query reads.\<close>

definition pre_save :: "jsdate \<Rightarrow> bool \<Rightarrow> submission list \<Rightarrow> submission \<Rightarrow> submission" where
  "pre_save now isNew subs doc =
     (let doc1 = doc\<lparr>updatedAt := Some now\<rparr>
      in if \<not> truthy_str (submissionNumber doc1) \<and> isNew
         then doc1\<lparr>submissionNumber :=
                Some (period_prefix now @
                      padStart 5 CHR ''0'' (showSeq (next_sequence (findLast (period_prefix now) subs))))\<rparr>
         else doc1)"

text \<open>The insert of a new document; the \<open>unique: true\<close> index on \<open>submissionNumber\<close>
  rejects a number that is already stored.\<close>

definition insert_doc :: "submission \<Rightarrow> submission list \<Rightarrow> error + submission list" where
  "insert_doc doc subs =
     (if submissionNumber doc \<in> set (map submissionNumber subs)
      then Inl (DuplicateKey ''E11000 duplicate key error: submissionNumber'')
      else Inr (subs @ [doc]))"

text \<open>\<open>Submission.create(doc)\<close>: validation, the pre-save hook, the insert.\<close>

definition create :: "jsdate \<Rightarrow> submission \<Rightarrow> submission list \<Rightarrow> error + submission \<times> submission list" where
  "create now doc subs =
     (case validate doc of
        Some e \<Rightarrow> Inl e
      | None \<Rightarrow>
          (let doc1 = pre_save now True subs doc
           in case insert_doc doc1 subs of
                Inl e \<Rightarrow> Inl e
              | Inr subs' \<Rightarrow> Inr (doc1, subs')))"

text \<open>\<open>doc.save()\<close> on a document loaded from the collection: validation, the pre-save
  hook, then the stored document of the same \<open>_id\<close> is replaced.\<close>

definition save :: "jsdate \<Rightarrow> submission \<Rightarrow> submission list \<Rightarrow> error + submission \<times> submission list" where
  "save now doc subs =
     (case validate doc of
        Some e \<Rightarrow> Inl e
      | None \<Rightarrow>
          (let doc1 = pre_save now False subs doc
           in Inr (doc1, map (\<lambda>s. if sid s = sid doc1 then doc1 else s) subs)))"

definition findById :: "submission list \<Rightarrow> oid \<Rightarrow> submission option" where
  "findById subs i = find (\<lambda>s. sid s = i) subs"

definition findFormById :: "form_doc list \<Rightarrow> oid \<Rightarrow> form_doc option" where
  "findFormById fs i = find (\<lambda>f. fid f = i) fs"

text \<open>\<open>submissionSchema.methods.updateStatus\<close>.\<close>

definition updateStatus ::
  "jsdate \<Rightarrow> oid \<Rightarrow> string \<Rightarrow> string option \<Rightarrow> submission \<Rightarrow> submission list
     \<Rightarrow> error + submission \<times> submission list" where
  "updateStatus now userId newStatus cmt this subs =
     (let oldStatus = status this;
          this1 = this\<lparr>status := newStatus\<rparr>;
          this2 = this1\<lparr>workflowHistory := workflowHistory this1 @
                    [\<lparr>h_stage = currentStage this1, h_user = userId,
                      h_action = ''Status changed from '' @ oldStatus @ '' to '' @ newStatus,
                      h_comment = cmt, h_timestamp = now\<rparr>]\<rparr>;
          this3 = this2\<lparr>auditLog := auditLog this2 @
                    [\<lparr>a_user = userId, a_action = ''status_change'', a_field = ''status'',
                      a_oldValue = oldStatus, a_newValue = newStatus, a_timestamp = now\<rparr>]\<rparr>;
          this4 = this3\<lparr>lastModifiedBy := Some userId\<rparr>
      in save now this4 subs)"

section \<open>Form model: canSubmit\<close>

text \<open>\<open>formSchema.methods.canSubmit\<close>; \<open>None\<close> is a missing \<open>user\<close>.\<close>

definition canSubmit :: "form_doc \<Rightarrow> user option \<Rightarrow> bool" where
  "canSubmit this usr =
     (let perms = submitForm (form_permissions this)
      in if public perms then True
         else if usr = None \<and> \<not> requireLogin (form_settings this) then True
         else if (case usr of None \<Rightarrow> False | Some u \<Rightarrow> uid u \<in> set (users perms)) then True
         else if (case usr of None \<Rightarrow> False | Some u \<Rightarrow> role u \<in> set (roles perms)) then True
         else False)"

section \<open>Submission controller\<close>

text \<open>The body of \<open>PUT /:id/status\<close>: its properties are strings; \<open>None\<close> is a missing
  property.\<close>

record status_body =
  b_status :: "string option"
  b_currentStage :: "string option"
  b_comment :: "string option"
  b_priority :: "string option"

definition updateSubmissionStatus ::
  "jsdate \<Rightarrow> user \<Rightarrow> oid \<Rightarrow> status_body \<Rightarrow> database \<Rightarrow> response \<times> database" where
  "updateSubmissionStatus now usr i body db =
     (case findById (submissions db) i of
        None \<Rightarrow> (Fail 404 ''Submission not found'', db)
      | Some sub \<Rightarrow>
          if isDeleted sub then (Fail 404 ''Submission not found'', db)
          else
            (let historyEntry =
                   \<lparr>h_stage = or_else (b_currentStage body) (currentStage sub),
                    h_user = uid usr,
                    h_action = or_else (b_status body) ''updated'',
                    h_comment = b_comment body,
                    h_timestamp = now\<rparr>;
                 sub1 = sub\<lparr>workflowHistory := workflowHistory sub @ [historyEntry]\<rparr>
             in case (if truthy_str (b_status body)
                      then updateStatus now (uid usr) (the (b_status body)) (b_comment body)
                             sub1 (submissions db)
                      else Inr (sub1, submissions db)) of
                  Inl e \<Rightarrow> (Fail 500 (message e), db)
                | Inr (sub2, subs2) \<Rightarrow>
                    (let sub3 = (if truthy_str (b_currentStage body)
                                 then sub2\<lparr>currentStage := the (b_currentStage body)\<rparr> else sub2);
                         sub4 = (if truthy_str (b_priority body)
                                 then sub3\<lparr>priority := the (b_priority body)\<rparr> else sub3);
                         sub5 = (if b_status body = Some ''completed'' \<or> b_status body = Some ''approved''
                                 then sub4\<lparr>completedAt := Some now, completedBy := Some (uid usr)\<rparr>
                                 else sub4)
                     in case save now sub5 subs2 of
                          Inl e \<Rightarrow> (Fail 500 (message e), db\<lparr>submissions := subs2\<rparr>)
                        | Inr (sub6, subs3) \<Rightarrow> (Ok 200, db\<lparr>submissions := subs3\<rparr>))))"

text \<open>\<open>Submission.updateMany({masterSubmission: id}, {isDeleted: true, deletedAt, deletedBy})\<close>.\<close>

definition cascade :: "jsdate \<Rightarrow> oid \<Rightarrow> oid \<Rightarrow> submission list \<Rightarrow> submission list" where
  "cascade now userId masterId subs =
     map (\<lambda>s. if masterSubmission s = Some masterId
               then s\<lparr>isDeleted := True, deletedAt := Some now, deletedBy := Some userId\<rparr>
               else s) subs"

text \<open>\<open>canDelete\<close> of \<open>deleteSubmission\<close>; reading \<open>form.permissions\<close> of a form that
  was not found throws.\<close>

definition canDelete :: "user \<Rightarrow> submission \<Rightarrow> form_doc option \<Rightarrow> error + bool" where
  "canDelete usr sub frm =
     (if role usr = ''admin'' then Inr True
      else case frm of
             None \<Rightarrow> Inl (TypeError ''Cannot read properties of null (reading 'permissions')'')
           | Some f \<Rightarrow>
               (let pol = deleteSubmissions (form_permissions f)
                in Inr ((submittedBy sub = uid usr \<and> ownSubmissionsOnly pol)
                        \<or> role usr \<in> set (sp_roles pol)
                        \<or> uid usr \<in> set (sp_users pol))))"

text \<open>\<open>deleteSubmission\<close>. The files of the submission are deleted from the GridFS
  bucket, which is outside the three collections; errors there are caught and logged.\<close>

definition deleteSubmission :: "jsdate \<Rightarrow> user \<Rightarrow> oid \<Rightarrow> database \<Rightarrow> response \<times> database" where
  "deleteSubmission now usr i db =
     (case findById (submissions db) i of
        None \<Rightarrow> (Fail 404 ''Submission not found'', db)
      | Some sub \<Rightarrow>
          if isDeleted sub then (Fail 404 ''Submission not found'', db)
          else
            (let frm = findFormById (forms db) (form sub)
             in case canDelete usr sub frm of
                  Inl e \<Rightarrow> (Fail 500 (message e), db)
                | Inr False \<Rightarrow> (Fail 403 ''Not authorized to delete this submission'', db)
                | Inr True \<Rightarrow>
                    (case save now (sub\<lparr>isDeleted := True, deletedAt := Some now,
                                         deletedBy := Some (uid usr)\<rparr>) (submissions db) of
                       Inl e \<Rightarrow> (Fail 500 (message e), db)
                     | Inr (sub1, subs1) \<Rightarrow>
                         (case frm of
                            None \<Rightarrow>
                              (Fail 500 ''Cannot read properties of null (reading 'type')'',
                               db\<lparr>submissions := subs1\<rparr>)
                          | Some f \<Rightarrow>
                              if form_type f = ''master''
                                 \<and> (case masterForm f of None \<Rightarrow> False | Some m \<Rightarrow> cascadeDelete m)
                              then (Ok 200, db\<lparr>submissions := cascade now (uid usr) (sid sub1) subs1\<rparr>)
                              else (Ok 200, db\<lparr>submissions := subs1\<rparr>)))))"

text \<open>The body of \<open>POST /\<close> (\<open>createSubmission\<close>) and the request's \<open>User-Agent\<close>
  header, for a request whose \<open>nestedSubmissions\<close> is missing or empty, so that the loop
  over nested items does not run. \<open>None\<close> is a missing property or header. \<open>data\<close> is an
  object, given by its keys and values: the route's validator answers any other body
  before the controller runs.\<close>

record create_body =
  c_form :: oid
  c_data :: "(string \<times> jsval) list"
  c_userAgent :: "string option"
  c_files :: "string list option"
  c_status :: "string option"
  c_parentSubmission :: "oid option"
  c_masterSubmission :: "oid option"

text \<open>The \<open>_id\<close> the driver gives a new document: one that no stored document has.\<close>

definition new_id :: "submission list \<Rightarrow> oid" where
  "new_id subs = Suc (fold max (map sid subs) 0)"

text \<open>\<open>now < startDate || now > endDate\<close>; a missing date is an invalid \<open>Date\<close>,
  which compares false.\<close>

definition outside_window :: "jsdate \<Rightarrow> scheduling \<Rightarrow> bool" where
  "outside_window now sch =
     ((case startDate sch of None \<Rightarrow> False | Some s \<Rightarrow> getTime now < s)
      \<or> (case endDate sch of None \<Rightarrow> False | Some e \<Rightarrow> e < getTime now))"

text \<open>\<open>parseBrowser\<close>, \<open>parseOS\<close> and \<open>parseDevice\<close>: each calls \<open>userAgent.includes\<close>,
  which throws when the request has no \<open>User-Agent\<close> header.\<close>

definition parseBrowser :: "string option \<Rightarrow> error + string" where
  "parseBrowser ua =
     (case ua of
        None \<Rightarrow> Inl (TypeError ''Cannot read properties of undefined (reading 'includes')'')
      | Some a \<Rightarrow>
          Inr (if includes_str a ''Chrome'' then ''Chrome''
               else if includes_str a ''Firefox'' then ''Firefox''
               else if includes_str a ''Safari'' then ''Safari''
               else if includes_str a ''Edge'' then ''Edge''
               else ''Unknown''))"

definition parseOS :: "string option \<Rightarrow> error + string" where
  "parseOS ua =
     (case ua of
        None \<Rightarrow> Inl (TypeError ''Cannot read properties of undefined (reading 'includes')'')
      | Some a \<Rightarrow>
          Inr (if includes_str a ''Windows'' then ''Windows''
               else if includes_str a ''Mac'' then ''macOS''
               else if includes_str a ''Linux'' then ''Linux''
               else if includes_str a ''Android'' then ''Android''
               else if includes_str a ''iOS'' then ''iOS''
               else ''Unknown''))"

definition parseDevice :: "string option \<Rightarrow> error + string" where
  "parseDevice ua =
     (case ua of
        None \<Rightarrow> Inl (TypeError ''Cannot read properties of undefined (reading 'includes')'')
      | Some a \<Rightarrow>
          Inr (if includes_str a ''Mobile'' then ''Mobile''
               else if includes_str a ''Tablet'' then ''Tablet''
               else ''Desktop''))"

text \<open>The \<open>metadata\<close> of the argument of \<open>Submission.create\<close>; any of the three parsers
  may throw.\<close>

definition request_metadata :: "string option \<Rightarrow> error + submission_metadata" where
  "request_metadata ua =
     (case parseBrowser ua of
        Inl e \<Rightarrow> Inl e
      | Inr br \<Rightarrow>
          (case parseOS ua of
             Inl e \<Rightarrow> Inl e
           | Inr osn \<Rightarrow>
               (case parseDevice ua of
                  Inl e \<Rightarrow> Inl e
                | Inr dv \<Rightarrow> Inr \<lparr>userAgent = the ua, browser = br, os = osn, device = dv\<rparr>)))"

text \<open>\<open>data\<close> is a Mongoose \<open>Map\<close>: building the document throws for a key that starts
  with \<open>$\<close> or contains a dot.\<close>

definition map_key_error :: "(string \<times> jsval) list \<Rightarrow> error option" where
  "map_key_error kv =
     (case find (\<lambda>k. starts_with ''$'' k \<or> CHR ''.'' \<in> set k) (map fst kv) of
        None \<Rightarrow> None
      | Some k \<Rightarrow>
          Some (CastError (if starts_with ''$'' k
                           then ''Mongoose maps do not support keys that start with $, got '' @ k
                           else ''Mongoose maps do not support keys that contain a dot, got '' @ k)))"

definition createSubmission ::
  "jsdate \<Rightarrow> user \<Rightarrow> create_body \<Rightarrow> database \<Rightarrow> response \<times> database" where
  "createSubmission now usr body db =
     (let st = (case c_status body of None \<Rightarrow> ''submitted'' | Some t \<Rightarrow> t)
      in case findFormById (forms db) (c_form body) of
           None \<Rightarrow> (Fail 404 ''Form not found'', db)
         | Some frm \<Rightarrow>
             if \<not> isActive frm \<and> st \<noteq> ''draft''
             then (Fail 400 ''Form is not active'', db)
             else if \<not> canSubmit frm (Some usr)
             then (Fail 403 ''Not authorized to submit this form'', db)
             else if \<not> allowMultipleSubmissions (form_settings frm) \<and> st \<noteq> ''draft''
                     \<and> find (\<lambda>s. form s = c_form body \<and> submittedBy s = uid usr
                                    \<and> status s \<noteq> ''draft'') (submissions db) \<noteq> None
             then (Fail 400 ''You have already submitted this form'', db)
             else if (case scheduling_of (form_settings frm) of
                        None \<Rightarrow> False
                      | Some sch \<Rightarrow> sch_enabled sch \<and> outside_window now sch)
             then (Fail 400
                     (or_else (closedMessage (the (scheduling_of (form_settings frm))))
                        ''This form is not accepting submissions at this time''), db)
             else if (case quotas_of (form_settings frm) of
                        None \<Rightarrow> False
                      | Some q \<Rightarrow>
                          q_enabled q \<and>
                          (case maxSubmissions q of
                             None \<Rightarrow> False
                           | Some mx \<Rightarrow>
                               mx \<le> length (filter (\<lambda>s. form s = c_form body \<and> status s \<noteq> ''draft'')
                                               (submissions db))))
             then (Fail 400
                     (or_else (quotaReachedMessage (the (quotas_of (form_settings frm))))
                        ''This form has reached its submission limit''), db)
             else
               (case request_metadata (c_userAgent body) of
                  Inl e \<Rightarrow> (Fail 500 (message e), db)
                | Inr meta \<Rightarrow>
               (case map_key_error (c_data body) of
                  Some e \<Rightarrow> (Fail 500 (message e), db)
                | None \<Rightarrow>
               (case create now
                       \<lparr>sid = new_id (submissions db),
                        form = c_form body,
                        parentSubmission = c_parentSubmission body,
                        masterSubmission = c_masterSubmission body,
                        submissionNumber = None,
                        data = JObj (c_data body),
                        files = (case c_files body of None \<Rightarrow> [] | Some fs \<Rightarrow> fs),
                        submittedBy = uid usr,
                        currentStage = (if st = ''draft'' then ''draft'' else ''submitted''),
                        workflowHistory =
                          (if st \<noteq> ''draft''
                           then [\<lparr>h_stage = ''submitted'', h_user = uid usr, h_action = ''submitted'',
                                  h_comment = None, h_timestamp = now\<rparr>]
                           else []),
                        status = st,
                        priority = ''medium'',
                        completedAt = None,
                        completedBy = None,
                        organization = or_else (user_organization usr) ''default'',
                        formVersion = version frm,
                        auditLog = [],
                        isDeleted = False,
                        deletedAt = None,
                        deletedBy = None,
                        updatedAt = None,
                        lastModifiedBy = None,
                        metadata = Some meta\<rparr>
                       (submissions db) of
                  Inl e \<Rightarrow> (Fail 500 (message e), db)
                | Inr (sub, subs1) \<Rightarrow>
                    (Ok 201,
                     db\<lparr>submissions := subs1,
                        forms := (if st \<noteq> ''draft''
                                  then map (\<lambda>f. if fid f = fid frm
                                                 then frm\<lparr>analytics_submissions := analytics_submissions frm + 1\<rparr>
                                                 else f) (forms db)
                                  else forms db)\<rparr>)))))"

section \<open>Simultaneous creations\<close>

text \<open>
  \<open>Submission.create\<close> is asynchronous: the pre-save hook awaits its \<open>findOne\<close> query,
  and the insert is a second round trip to the database. Between the two, the event loop
  serves the other requests. A creation in flight is therefore in one of four phases, and
  a schedule (the list of the requests in the order in which they take their next step)
  fixes the interleaving.
\<close>

datatype creation =
    Pending submission
  | Hooked submission
  | Stored submission
  | Rejected error

text \<open>The next step of one creation against the collection: validation and the hook's
  query first, the insert second.\<close>

definition advance :: "jsdate \<Rightarrow> creation \<Rightarrow> submission list \<Rightarrow> creation \<times> submission list" where
  "advance now c subs =
     (case c of
        Pending doc \<Rightarrow>
          (case validate doc of
             Some e \<Rightarrow> (Rejected e, subs)
           | None \<Rightarrow> (Hooked (pre_save now True subs doc), subs))
      | Hooked doc1 \<Rightarrow>
          (case insert_doc doc1 subs of
             Inl e \<Rightarrow> (Rejected e, subs)
           | Inr subs' \<Rightarrow> (Stored doc1, subs'))
      | Stored d \<Rightarrow> (Stored d, subs)
      | Rejected e \<Rightarrow> (Rejected e, subs))"

definition step :: "jsdate \<Rightarrow> nat \<Rightarrow> creation list \<times> submission list \<Rightarrow> creation list \<times> submission list" where
  "step now k st =
     (if k < length (fst st)
      then (let (c, subs) = advance now (fst st ! k) (snd st) in ((fst st)[k := c], subs))
      else st)"

definition run :: "jsdate \<Rightarrow> nat list \<Rightarrow> creation list \<times> submission list \<Rightarrow> creation list \<times> submission list" where
  "run now schedule st = fold (step now) schedule st"

section \<open>Client: rule evaluation and form validation (FormView)\<close>

text \<open>
  The built-ins of the JavaScript engine whose algorithms are not part of the repository
  are parameters of the model: the parsing of a numeric string (\<open>parseFloat\<close>,
  \<open>Number\<close>), the printing of a number that is not an integer, the regular-expression
  engine (\<open>None\<close>: the pattern does not compile, \<open>new RegExp\<close> throws), the URL
  parser (\<open>False\<close>: \<open>new URL\<close> throws) and the text a built-in function of
  \<open>Object.prototype\<close> prints as.
\<close>

record host =
  parseFloatStr :: "string \<Rightarrow> jsnum"
  stringToNumber :: "string \<Rightarrow> jsnum"
  fracToString :: "rat \<Rightarrow> string"
  functionToString :: "string \<Rightarrow> string"
  regexTest :: "string \<Rightarrow> string \<Rightarrow> bool option"
  isValidURL :: "string \<Rightarrow> bool"

definition truthy :: "jsval \<Rightarrow> bool" where
  "truthy v =
     (case v of
        JUndefined \<Rightarrow> False
      | JNull \<Rightarrow> False
      | JBool b \<Rightarrow> b
      | JNum n \<Rightarrow> n \<noteq> NaN \<and> n \<noteq> Fin 0
      | JStr s \<Rightarrow> s \<noteq> []
      | JArr xs \<Rightarrow> True
      | JObj kv \<Rightarrow> True
      | JInherited n \<Rightarrow> True)"

definition isArray :: "jsval \<Rightarrow> bool" where
  "isArray v = (case v of JArr xs \<Rightarrow> True | _ \<Rightarrow> False)"

definition array_length :: "jsval \<Rightarrow> nat" where
  "array_length v = (case v of JArr xs \<Rightarrow> length xs | _ \<Rightarrow> 0)"

definition nullish :: "jsval \<Rightarrow> bool" where
  "nullish v = (v = JUndefined \<or> v = JNull)"

text \<open>\<open>a === b\<close> where \<open>a\<close> comes from the form data and \<open>b\<close> from the form definition:
  two arrays or objects are then never the same object.\<close>

definition strict_eq :: "jsval \<Rightarrow> jsval \<Rightarrow> bool" where
  "strict_eq a b =
     (case (a, b) of
        (JUndefined, JUndefined) \<Rightarrow> True
      | (JNull, JNull) \<Rightarrow> True
      | (JBool x, JBool y) \<Rightarrow> x = y
      | (JNum x, JNum y) \<Rightarrow> x = y \<and> x \<noteq> NaN
      | (JStr x, JStr y) \<Rightarrow> x = y
      | _ \<Rightarrow> False)"

text \<open>SameValueZero, the comparison of \<open>Array.prototype.includes\<close>.\<close>

definition same_value_zero :: "jsval \<Rightarrow> jsval \<Rightarrow> bool" where
  "same_value_zero a b =
     (case (a, b) of
        (JUndefined, JUndefined) \<Rightarrow> True
      | (JNull, JNull) \<Rightarrow> True
      | (JBool x, JBool y) \<Rightarrow> x = y
      | (JNum x, JNum y) \<Rightarrow> x = y
      | (JStr x, JStr y) \<Rightarrow> x = y
      | _ \<Rightarrow> False)"

definition numToString :: "host \<Rightarrow> jsnum \<Rightarrow> string" where
  "numToString H n =
     (case n of
        NaN \<Rightarrow> ''NaN''
      | PosInf \<Rightarrow> ''Infinity''
      | NegInf \<Rightarrow> ''-Infinity''
      | Fin q \<Rightarrow>
          if of_int \<lfloor>q\<rfloor> = q \<and> \<bar>q\<bar> < 10 ^ 21 then showInt \<lfloor>q\<rfloor> else fracToString H q)"

fun join :: "string \<Rightarrow> string list \<Rightarrow> string" where
  "join sep [] = []"
| "join sep [x] = x"
| "join sep (x # y # ys) = x @ sep @ join sep (y # ys)"

text \<open>\<open>String(v)\<close>; an array prints its elements separated by commas, \<open>null\<close> and
  \<open>undefined\<close> elements as the empty string.\<close>

fun toString :: "host \<Rightarrow> jsval \<Rightarrow> string" where
  "toString H JUndefined = ''undefined''"
| "toString H JNull = ''null''"
| "toString H (JBool b) = (if b then ''true'' else ''false'')"
| "toString H (JNum n) = numToString H n"
| "toString H (JStr s) = s"
| "toString H (JArr xs) =
     join '','' (map (\<lambda>x. if x = JUndefined \<or> x = JNull then [] else toString H x) xs)"
| "toString H (JObj kv) = ''[object Object]''"
| "toString H (JInherited n) =
     (if n = ''__proto__'' then ''[object Object]'' else functionToString H n)"

definition parseFloat :: "host \<Rightarrow> jsval \<Rightarrow> jsnum" where
  "parseFloat H v = (case v of JNum n \<Rightarrow> n | _ \<Rightarrow> parseFloatStr H (toString H v))"

text \<open>\<open>Number(v)\<close>, the conversion a relational operator applies to an operand when
  the other one is a number.\<close>

definition toNumber :: "host \<Rightarrow> jsval \<Rightarrow> jsnum" where
  "toNumber H v =
     (case v of
        JUndefined \<Rightarrow> NaN
      | JNull \<Rightarrow> Fin 0
      | JBool b \<Rightarrow> (if b then Fin 1 else Fin 0)
      | JNum n \<Rightarrow> n
      | JStr s \<Rightarrow> stringToNumber H s
      | JArr xs \<Rightarrow> stringToNumber H (toString H (JArr xs))
      | JObj kv \<Rightarrow> NaN
      | JInherited n \<Rightarrow> stringToNumber H (toString H (JInherited n)))"

fun num_lt :: "jsnum \<Rightarrow> jsnum \<Rightarrow> bool" where
  "num_lt NaN b = False"
| "num_lt a NaN = False"
| "num_lt PosInf b = False"
| "num_lt a NegInf = False"
| "num_lt NegInf b = True"
| "num_lt a PosInf = True"
| "num_lt (Fin x) (Fin y) = (x < y)"

text \<open>The keys every plain object inherits from \<open>Object.prototype\<close>, each with the
  \<open>length\<close> of its function (\<open>None\<close> for \<open>__proto__\<close>, which is the prototype object and
  has no \<open>length\<close>).\<close>

definition object_members :: "(string \<times> nat option) list" where
  "object_members =
     [(''constructor'', Some 1), (''__defineGetter__'', Some 2), (''__defineSetter__'', Some 2),
      (''hasOwnProperty'', Some 1), (''__lookupGetter__'', Some 1), (''__lookupSetter__'', Some 1),
      (''isPrototypeOf'', Some 1), (''propertyIsEnumerable'', Some 1), (''toString'', Some 0),
      (''valueOf'', Some 0), (''__proto__'', None), (''toLocaleString'', Some 0)]"

definition inherited :: "string \<Rightarrow> bool" where
  "inherited key = (key \<in> set (map fst object_members))"

text \<open>\<open>obj[key]\<close> on a plain object given by its own keys: an own key reads its value,
  an inherited key the inherited member, any other key \<open>undefined\<close>.\<close>

definition get :: "(string \<times> jsval) list \<Rightarrow> string \<Rightarrow> jsval" where
  "get obj key =
     (case map_of obj key of
        Some v \<Rightarrow> v
      | None \<Rightarrow> if inherited key then JInherited key else JUndefined)"

record rule =
  r_field :: string
  r_operator :: string
  r_value :: jsval

record conditional =
  enabled :: bool
  rules :: "rule list"
  logicalOperator :: "string option"

record validation =
  v_min :: "jsval option"
  v_max :: "jsval option"
  v_minLength :: "jsnum option"
  v_maxLength :: "jsnum option"
  v_pattern :: "string option"
  v_message :: "string option"

record nested_form =
  minItems :: "jsnum option"
  maxItems :: "jsnum option"

record field =
  f_id :: string
  f_type :: string
  label :: string
  required :: bool
  hidden :: bool
  validation_of :: "validation option"
  conditional_of :: "conditional option"
  nestedForm :: "nested_form option"

record client_form =
  cf_type :: string
  cf_fields :: "field list"
  cf_pages :: "string list list option"

definition operators :: "string list" where
  "operators = [''equals'', ''not_equals'', ''contains'', ''not_contains'', ''greater_than'',
                ''less_than'', ''is_empty'', ''is_not_empty'', ''in'', ''not_in'']"

text \<open>\<open>targetValue.includes(sourceValue)\<close>: a string searches for the printed source
  value, an array for an element that is the same value; any other target has no
  \<open>includes\<close> method.\<close>

definition target_includes :: "host \<Rightarrow> jsval \<Rightarrow> jsval \<Rightarrow> error + bool" where
  "target_includes H targetValue sourceValue =
     (case targetValue of
        JStr s \<Rightarrow> Inr (includes_str s (toString H sourceValue))
      | JArr xs \<Rightarrow> Inr (list_ex (\<lambda>x. same_value_zero x sourceValue) xs)
      | _ \<Rightarrow> Inl (TypeError ''targetValue.includes is not a function''))"

text \<open>The \<open>switch\<close> of \<open>evaluateCondition\<close> on one rule. The result is the truthiness
  of what the \<open>case\<close> returns (\<open>contains\<close> returns \<open>undefined\<close> for a missing source
  value).\<close>

definition evalRule :: "host \<Rightarrow> (string \<times> jsval) list \<Rightarrow> rule \<Rightarrow> error + bool" where
  "evalRule H formData r =
     (let sourceValue = get formData (r_field r);
          targetValue = r_value r;
          op = r_operator r
      in if op = ''equals'' then Inr (strict_eq sourceValue targetValue)
         else if op = ''not_equals'' then Inr (\<not> strict_eq sourceValue targetValue)
         else if op = ''contains''
           then Inr (\<not> nullish sourceValue
                     \<and> includes_str (toString H sourceValue) (toString H targetValue))
         else if op = ''not_contains''
           then Inr (\<not> (\<not> nullish sourceValue
                        \<and> includes_str (toString H sourceValue) (toString H targetValue)))
         else if op = ''greater_than''
           then Inr (num_lt (parseFloat H targetValue) (parseFloat H sourceValue))
         else if op = ''less_than''
           then Inr (num_lt (parseFloat H sourceValue) (parseFloat H targetValue))
         else if op = ''is_empty''
           then Inr (\<not> truthy sourceValue \<or> (isArray sourceValue \<and> array_length sourceValue = 0))
         else if op = ''is_not_empty''
           then Inr (truthy sourceValue \<and> (\<not> isArray sourceValue \<or> 0 < array_length sourceValue))
         else if op = ''in'' then target_includes H targetValue sourceValue
         else if op = ''not_in''
           then (case target_includes H targetValue sourceValue of
                   Inl e \<Rightarrow> Inl e
                 | Inr b \<Rightarrow> Inr (\<not> b))
         else Inr True)"

text \<open>\<open>rules.map(...)\<close>: the results in order, or the exception of the first rule that
  throws.\<close>

fun evalRules :: "host \<Rightarrow> (string \<times> jsval) list \<Rightarrow> rule list \<Rightarrow> error + bool list" where
  "evalRules H formData [] = Inr []"
| "evalRules H formData (r # rs) =
     (case evalRule H formData r of
        Inl e \<Rightarrow> Inl e
      | Inr b \<Rightarrow>
          (case evalRules H formData rs of
             Inl e \<Rightarrow> Inl e
           | Inr bs \<Rightarrow> Inr (b # bs)))"

definition evaluateCondition :: "host \<Rightarrow> (string \<times> jsval) list \<Rightarrow> field \<Rightarrow> error + bool" where
  "evaluateCondition H formData fld =
     (case conditional_of fld of
        None \<Rightarrow> Inr True
      | Some c \<Rightarrow>
          if \<not> enabled c \<or> rules c = [] then Inr True
          else
            (let operator = or_else (logicalOperator c) ''AND''
             in case evalRules H formData (rules c) of
                  Inl e \<Rightarrow> Inl e
                | Inr results \<Rightarrow>
                    Inr (if operator = ''AND'' then list_all (\<lambda>r. r) results
                         else list_ex (\<lambda>r. r) results)))"

text \<open>\<open>value.length\<close> of a value that is not \<open>null\<close> or \<open>undefined\<close>. A string is
  taken to hold characters of one UTF-16 code unit each.\<close>

definition length_of :: "jsval \<Rightarrow> jsval" where
  "length_of v =
     (case v of
        JStr s \<Rightarrow> JNum (Fin (of_nat (length s)))
      | JArr xs \<Rightarrow> JNum (Fin (of_nat (length xs)))
      | JObj kv \<Rightarrow> get kv ''length''
      | JInherited n \<Rightarrow>
          (case map_of object_members n of
             Some (Some k) \<Rightarrow> JNum (Fin (of_nat k))
           | _ \<Rightarrow> JUndefined)
      | _ \<Rightarrow> JUndefined)"

definition truthy_num :: "jsnum option \<Rightarrow> bool" where
  "truthy_num n = (case n of None \<Rightarrow> False | Some x \<Rightarrow> x \<noteq> NaN \<and> x \<noteq> Fin 0)"

text \<open>\<open>x !== undefined\<close> for an optional property.\<close>

definition defined :: "jsval option \<Rightarrow> bool" where
  "defined x = (x \<noteq> None \<and> x \<noteq> Some JUndefined)"

definition backslash :: string where
  "backslash = [CHR 0x5C]"

text \<open>The sources of the two regular-expression literals of \<open>validateForm\<close>.\<close>

definition emailRegex :: string where
  "emailRegex = ''^[^'' @ backslash @ ''s@]+@[^'' @ backslash @ ''s@]+'' @ backslash @ ''.[^''
                @ backslash @ ''s@]+$''"

definition phoneRegex :: string where
  "phoneRegex = ''^['' @ backslash @ ''d'' @ backslash @ ''s'' @ backslash @ ''-'' @ backslash
                @ ''+'' @ backslash @ ''('' @ backslash @ '')]+$''"

text \<open>Writing an own key of an object whose keys are kept in insertion order.\<close>

fun put_key :: "string \<Rightarrow> string \<Rightarrow> (string \<times> string) list \<Rightarrow> (string \<times> string) list" where
  "put_key key msg [] = [(key, msg)]"
| "put_key key msg ((k, m) # es) =
     (if k = key then (key, msg) # es else (k, m) # put_key key msg es)"

text \<open>\<open>newErrors[key] = msg\<close> on the plain object \<open>newErrors\<close>. Assigning a string to
  \<open>__proto__\<close> runs the setter of \<open>Object.prototype\<close>, which ignores it: no key is
  created.\<close>

definition set_error :: "string \<Rightarrow> string \<Rightarrow> (string \<times> string) list \<Rightarrow> (string \<times> string) list" where
  "set_error key msg es = (if key = ''__proto__'' then es else put_key key msg es)"

text \<open>A run of statements \<open>if (c) newErrors[key] = msg;\<close>, each given by the value of
  its condition and its message.\<close>

definition assign :: "string \<Rightarrow> (bool \<times> string) list \<Rightarrow> (string \<times> string) list \<Rightarrow> (string \<times> string) list" where
  "assign key cs es = fold (\<lambda>(c, msg) e. if c then set_error key msg e else e) cs es"

text \<open>The messages of the statements of a run whose condition holds, in source order.\<close>

definition failed_messages :: "(bool \<times> string) list \<Rightarrow> string list" where
  "failed_messages cs = map snd (filter fst cs)"

text \<open>The condition of the \<open>required\<close> block: no upload for a file or image field, a
  falsy value or an empty array for any other field. \<open>uploadedFiles\<close> is given by its own
  keys, each holding a file descriptor; \<open>uploadedFiles[field.id]\<close> is falsy when the key is
  neither owned nor inherited.\<close>

definition required_missing :: "(string \<times> jsval) list \<Rightarrow> string list \<Rightarrow> field \<Rightarrow> bool" where
  "required_missing formData uploadedFiles fld =
     (let value = get formData (f_id fld)
      in if f_type fld = ''file'' \<or> f_type fld = ''image''
         then f_id fld \<notin> set uploadedFiles \<and> \<not> inherited (f_id fld)
         else \<not> truthy value \<or> (isArray value \<and> array_length value = 0))"

text \<open>The statements under \<open>if (field.validation)\<close>, in source order; compiling the
  pattern may throw.\<close>

definition validation_checks :: "host \<Rightarrow> validation \<Rightarrow> jsval \<Rightarrow> error + (bool \<times> string) list" where
  "validation_checks H v value =
     (let numeric =
            [(defined (v_min v) \<and> num_lt (parseFloat H value) (toNumber H (the (v_min v))),
              ''Minimum value is '' @ toString H (the (v_min v))),
             (defined (v_max v) \<and> num_lt (toNumber H (the (v_max v))) (parseFloat H value),
              ''Maximum value is '' @ toString H (the (v_max v))),
             (truthy_num (v_minLength v)
                \<and> num_lt (toNumber H (length_of value)) (the (v_minLength v)),
              ''Minimum '' @ numToString H (the (v_minLength v)) @ '' characters required''),
             (truthy_num (v_maxLength v)
                \<and> num_lt (the (v_maxLength v)) (toNumber H (length_of value)),
              ''Maximum '' @ numToString H (the (v_maxLength v)) @ '' characters allowed'')]
      in if truthy_str (v_pattern v)
         then (case regexTest H (the (v_pattern v)) (toString H value) of
                 None \<Rightarrow> Inl (SyntaxError ''Invalid regular expression'')
               | Some matches \<Rightarrow>
                   Inr (numeric @ [(\<not> matches, or_else (v_message v) ''Invalid format'')]))
         else Inr numeric)"

text \<open>The statements under \<open>if (value)\<close>: the checks by field type, then the
  validation rules.\<close>

definition value_checks :: "host \<Rightarrow> field \<Rightarrow> jsval \<Rightarrow> error + (bool \<times> string) list" where
  "value_checks H fld value =
     (let typed =
            [(f_type fld = ''email'' \<and> regexTest H emailRegex (toString H value) \<noteq> Some True,
              ''Please enter a valid email address''),
             (f_type fld = ''url'' \<and> \<not> isValidURL H (toString H value),
              ''Please enter a valid URL''),
             (f_type fld = ''tel'' \<and> regexTest H phoneRegex (toString H value) \<noteq> Some True,
              ''Please enter a valid phone number'')]
      in case validation_of fld of
           None \<Rightarrow> Inr typed
         | Some v \<Rightarrow>
             (case validation_checks H v value of
                Inl e \<Rightarrow> Inl e
              | Inr cs \<Rightarrow> Inr (typed @ cs)))"

text \<open>\<open>nested.length\<close> for \<open>nested = nestedSubmissions[key] || []\<close>: the number of staged
  items of an own key, the \<open>length\<close> of the inherited member of an inherited key, zero
  for any other key.\<close>

definition nested_length :: "host \<Rightarrow> (string \<times> jsval list) list \<Rightarrow> string \<Rightarrow> jsnum" where
  "nested_length H nestedSubmissions key =
     (case map_of nestedSubmissions key of
        Some items \<Rightarrow> Fin (of_nat (length items))
      | None \<Rightarrow> if inherited key then toNumber H (length_of (JInherited key)) else Fin 0)"

text \<open>The item-count statements of a nested form or repeater field.\<close>

definition nested_checks :: "host \<Rightarrow> (string \<times> jsval list) list \<Rightarrow> field \<Rightarrow> (bool \<times> string) list" where
  "nested_checks H nestedSubmissions fld =
     (case nestedForm fld of
        None \<Rightarrow> []
      | Some nf \<Rightarrow>
          if f_type fld = ''nested_form'' \<or> f_type fld = ''repeater''
          then (let nested_len = nested_length H nestedSubmissions (f_id fld)
                in [(truthy_num (minItems nf)
                       \<and> num_lt nested_len (the (minItems nf)),
                     ''Minimum '' @ numToString H (the (minItems nf)) @ '' items required''),
                    (truthy_num (maxItems nf)
                       \<and> num_lt (the (maxItems nf)) nested_len,
                     ''Maximum '' @ numToString H (the (maxItems nf)) @ '' items allowed'')])
          else [])"

text \<open>All the guarded assignments to \<open>newErrors[field.id]\<close> that one iteration of the
  \<open>forEach\<close> reaches for a field that is not skipped, in source order.\<close>

definition field_checks ::
  "host \<Rightarrow> (string \<times> jsval) list \<Rightarrow> string list \<Rightarrow> (string \<times> jsval list) list \<Rightarrow> field
     \<Rightarrow> error + (bool \<times> string) list" where
  "field_checks H formData uploadedFiles nestedSubmissions fld =
     (let value = get formData (f_id fld);
          req = [(required fld \<and> required_missing formData uploadedFiles fld,
                  label fld @ '' is required'')]
      in case (if truthy value then value_checks H fld value else Inr []) of
           Inl e \<Rightarrow> Inl e
         | Inr cs \<Rightarrow> Inr (req @ cs @ nested_checks H nestedSubmissions fld))"

text \<open>One iteration of \<open>currentFields.forEach\<close>: a field that is hidden, or whose
  condition is not satisfied, is skipped.\<close>

definition validateField ::
  "host \<Rightarrow> (string \<times> jsval) list \<Rightarrow> string list \<Rightarrow> (string \<times> jsval list) list \<Rightarrow> field
     \<Rightarrow> (string \<times> string) list \<Rightarrow> error + (string \<times> string) list" where
  "validateField H formData uploadedFiles nestedSubmissions fld newErrors =
     (if hidden fld then Inr newErrors
      else case evaluateCondition H formData fld of
             Inl e \<Rightarrow> Inl e
           | Inr False \<Rightarrow> Inr newErrors
           | Inr True \<Rightarrow>
               (case field_checks H formData uploadedFiles nestedSubmissions fld of
                  Inl e \<Rightarrow> Inl e
                | Inr cs \<Rightarrow> Inr (assign (f_id fld) cs newErrors)))"

fun validateFields ::
  "host \<Rightarrow> (string \<times> jsval) list \<Rightarrow> string list \<Rightarrow> (string \<times> jsval list) list \<Rightarrow> field list
     \<Rightarrow> (string \<times> string) list \<Rightarrow> error + (string \<times> string) list" where
  "validateFields H formData uploadedFiles nestedSubmissions [] newErrors = Inr newErrors"
| "validateFields H formData uploadedFiles nestedSubmissions (fld # flds) newErrors =
     (case validateField H formData uploadedFiles nestedSubmissions fld newErrors of
        Inl e \<Rightarrow> Inl e
      | Inr newErrors' \<Rightarrow> validateFields H formData uploadedFiles nestedSubmissions flds newErrors')"

text \<open>\<open>currentFields\<close>: the fields of the current page of a wizard, all the fields of
  any other form, none when the form is not loaded. Reading the fields of a page that
  does not exist throws.\<close>

definition currentFields :: "client_form option \<Rightarrow> nat \<Rightarrow> error + field list" where
  "currentFields frm currentPage =
     (case frm of
        None \<Rightarrow> Inr []
      | Some f \<Rightarrow>
          (case cf_pages f of
             None \<Rightarrow> Inr (cf_fields f)
           | Some pages \<Rightarrow>
               if cf_type f = ''wizard''
               then (if cf_fields f = [] then Inr []
                     else case index pages currentPage of
                            None \<Rightarrow> Inl (TypeError ''Cannot read properties of undefined (reading 'fields')'')
                          | Some page \<Rightarrow> Inr (filter (\<lambda>fl. f_id fl \<in> set page) (cf_fields f)))
               else Inr (cf_fields f)))"

text \<open>\<open>validateForm\<close>: the error map it passes to \<open>setErrors\<close>; the form is valid when
  the map has no key.\<close>

definition validateForm ::
  "host \<Rightarrow> client_form option \<Rightarrow> nat \<Rightarrow> (string \<times> jsval) list \<Rightarrow> string list
     \<Rightarrow> (string \<times> jsval list) list \<Rightarrow> error + (string \<times> string) list" where
  "validateForm H frm currentPage formData uploadedFiles nestedSubmissions =
     (case currentFields frm currentPage of
        Inl e \<Rightarrow> Inl e
      | Inr flds \<Rightarrow> validateFields H formData uploadedFiles nestedSubmissions flds [])"

section \<open>Example data\<close>

text \<open>A date in May 2024, and three users.\<close>

definition ex_now :: jsdate where
  "ex_now = \<lparr>getTime = 1715000000000, getFullYear = 2024, getMonth = 4\<rparr>"

definition ex_admin :: user where
  "ex_admin = \<lparr>uid = 1, role = ''admin'', user_organization = None\<rparr>"

definition ex_reviewer :: user where
  "ex_reviewer = \<lparr>uid = 2, role = ''reviewer'', user_organization = None\<rparr>"

definition ex_user :: user where
  "ex_user = \<lparr>uid = 3, role = ''user'', user_organization = None\<rparr>"

text \<open>A stored submission with the schema defaults.\<close>

definition ex_submission :: "oid \<Rightarrow> oid \<Rightarrow> oid option \<Rightarrow> oid option \<Rightarrow> string \<Rightarrow> submission" where
  "ex_submission i f parent master number =
     \<lparr>sid = i, form = f, parentSubmission = parent, masterSubmission = master,
      submissionNumber = Some number, data = JObj [], files = [], submittedBy = 3,
      currentStage = ''submitted'',
      workflowHistory = [\<lparr>h_stage = ''submitted'', h_user = 3, h_action = ''submitted'',
                          h_comment = None, h_timestamp = ex_now\<rparr>],
      status = ''submitted'', priority = ''medium'', completedAt = None, completedBy = None,
      organization = ''default'', formVersion = 1, auditLog = [], isDeleted = False,
      deletedAt = None, deletedBy = None, updatedAt = Some ex_now, lastModifiedBy = None,
      metadata = None\<rparr>"

text \<open>The permissions a form gets from the form builder (FormBuilder, \<open>permissions\<close> of
  the initial form state; the submission policies are the schema defaults).\<close>

definition ex_permissions :: permissions where
  "ex_permissions =
     \<lparr>viewForm = \<lparr>public = False, roles = [''user''], users = []\<rparr>,
      submitForm = \<lparr>public = False, roles = [''user''], users = []\<rparr>,
      editSubmissions = \<lparr>sp_roles = [], sp_users = [], ownSubmissionsOnly = True\<rparr>,
      viewSubmissions = \<lparr>sp_roles = [], sp_users = [], ownSubmissionsOnly = True\<rparr>,
      deleteSubmissions = \<lparr>sp_roles = [], sp_users = [], ownSubmissionsOnly = True\<rparr>\<rparr>"

definition ex_settings :: settings where
  "ex_settings = \<lparr>allowMultipleSubmissions = True, requireLogin = True,
                   scheduling_of = None, quotas_of = None\<rparr>"

definition ex_form :: "oid \<Rightarrow> string \<Rightarrow> master_form option \<Rightarrow> form_doc" where
  "ex_form i t m =
     \<lparr>fid = i, form_type = t, masterForm = m, form_settings = ex_settings,
      form_workflow = Some 30, form_permissions = ex_permissions, isActive = True,
      version = 1, analytics_submissions = 0\<rparr>"

text \<open>A review workflow: the stage \<open>review\<close> has the actions \<open>approve\<close> and \<open>reject\<close>,
  the second with \<open>requireComment\<close>.\<close>

definition ex_reject :: stage_action where
  "ex_reject = \<lparr>act_id = ''reject'', act_name = ''Reject'', nextStage = ''rejected'',
                 requireComment = True\<rparr>"

definition ex_approve :: stage_action where
  "ex_approve = \<lparr>act_id = ''approve'', act_name = ''Approve'', nextStage = ''approved'',
                  requireComment = False\<rparr>"

definition ex_stage :: "string \<Rightarrow> stage_action list \<Rightarrow> stage" where
  "ex_stage i acts = \<lparr>stage_id = i, stage_name = i, allowedRoles = [''reviewer''],
                       allowedUsers = [], actions = acts\<rparr>"

definition ex_workflow :: workflow where
  "ex_workflow =
     \<lparr>wid = 30,
      stages = [ex_stage ''submitted'' [], ex_stage ''review'' [ex_approve, ex_reject],
                ex_stage ''approved'' [], ex_stage ''rejected'' []],
      initialStage = ''submitted'',
      finalStages = [''approved'', ''rejected'']\<rparr>"

text \<open>A submission of form 20 waiting at the stage \<open>review\<close>.\<close>

definition ex_in_review :: submission where
  "ex_in_review =
     (ex_submission 1 20 None None ''SUB-202405-00001'')
       \<lparr>currentStage := ''review'', status := ''in_review''\<rparr>"

definition ex_review_db :: database where
  "ex_review_db = \<lparr>submissions = [ex_in_review], forms = [ex_form 20 ''standard'' None],
                    workflows = [ex_workflow]\<rparr>"

text \<open>A master submission (1) of the master form 10 with cascading delete, two detail
  submissions (2, 3) linked by \<open>masterSubmission\<close>, a repeater child (4) linked by
  \<open>parentSubmission\<close> only, and an unrelated submission (5).\<close>

definition ex_master_db :: database where
  "ex_master_db =
     \<lparr>submissions =
        [ex_submission 1 10 None None ''SUB-202405-00001'',
         ex_submission 2 11 None (Some 1) ''SUB-202405-00002'',
         ex_submission 3 11 None (Some 1) ''SUB-202405-00003'',
         ex_submission 4 12 (Some 1) None ''SUB-202405-00004'',
         ex_submission 5 12 None None ''SUB-202405-00005''],
      forms = [ex_form 10 ''master'' (Some \<lparr>mf_formId = None, cascadeDelete = True\<rparr>),
               ex_form 11 ''detail'' (Some \<lparr>mf_formId = Some 10, cascadeDelete = False\<rparr>),
               ex_form 12 ''standard'' None],
      workflows = [ex_workflow]\<rparr>"

text \<open>An empty collection of submissions beside a form with the builder's permissions.\<close>

definition ex_empty_db :: database where
  "ex_empty_db = \<lparr>submissions = [], forms = [ex_form 20 ''standard'' None],
                   workflows = [ex_workflow]\<rparr>"

definition ex_create_body :: "string option \<Rightarrow> create_body" where
  "ex_create_body st =
     \<lparr>c_form = 20, c_data = [], c_userAgent = Some ''Mozilla/5.0 (Linux) Firefox/126.0'',
      c_files = None, c_status = st,
      c_parentSubmission = None, c_masterSubmission = None\<rparr>"

text \<open>A new document as \<open>createSubmission\<close> passes it to \<open>Submission.create\<close>.\<close>

definition ex_new_doc :: "oid \<Rightarrow> submission" where
  "ex_new_doc i =
     (ex_submission i 20 None None [])\<lparr>submissionNumber := None, updatedAt := None\<rparr>"


text \<open>The request of Scenario C: the action \<open>reject\<close> on the submission in review, with
  a comment or without one.\<close>

definition ex_reject_body :: "string option \<Rightarrow> status_body" where
  "ex_reject_body c =
     \<lparr>b_status = Some ''rejected'', b_currentStage = Some ''rejected'', b_comment = c,
      b_priority = None\<rparr>"

text \<open>A request that moves a submission to a stage the workflow does not declare.\<close>

definition ex_stage_body :: status_body where
  "ex_stage_body =
     \<lparr>b_status = None, b_currentStage = Some ''no_such_stage'', b_comment = None,
      b_priority = None\<rparr>"

text \<open>A new document created as a draft.\<close>

definition ex_draft_doc :: submission where
  "ex_draft_doc = (ex_new_doc 1)\<lparr>status := ''draft'', currentStage := ''draft'', workflowHistory := []\<rparr>"

text \<open>
  An engine for the client examples. It knows the one pattern they use, \<open>^[0-9]+$\<close>
  (a non-empty string of decimal digits); the examples reach no other built-in, and those
  are given constant results.
\<close>

definition ex_host :: host where
  "ex_host =
     \<lparr>parseFloatStr = (\<lambda>s. NaN),
      stringToNumber = (\<lambda>s. NaN),
      fracToString = (\<lambda>q. []),
      functionToString = (\<lambda>n. []),
      regexTest = (\<lambda>p s. if p = ''^[0-9]+$''
                           then Some (s \<noteq> [] \<and> list_all (\<lambda>c. c \<in> set ''0123456789'') s)
                           else None),
      isValidURL = (\<lambda>s. False)\<rparr>"

definition ex_field :: "string \<Rightarrow> bool \<Rightarrow> validation option \<Rightarrow> conditional option \<Rightarrow> field" where
  "ex_field i req v c =
     \<lparr>f_id = i, f_type = ''text'', label = i, required = req, hidden = False,
      validation_of = v, conditional_of = c, nestedForm = None\<rparr>"

text \<open>Scenario A: the required text field \<open>details\<close> is shown when \<open>other\<close> is not empty;
  both are left blank.\<close>

definition ex_details :: field where
  "ex_details =
     ex_field ''details'' True None
       (Some \<lparr>enabled = True,
              rules = [\<lparr>r_field = ''other'', r_operator = ''is_not_empty'', r_value = JUndefined\<rparr>],
              logicalOperator = None\<rparr>)"

definition ex_form_a :: client_form where
  "ex_form_a = \<lparr>cf_type = ''standard'',
                 cf_fields = [ex_field ''other'' False None None, ex_details],
                 cf_pages = None\<rparr>"

definition ex_data_a :: "(string \<times> jsval) list" where
  "ex_data_a = [(''other'', JStr []), (''details'', JStr [])]"

text \<open>A text field with a length bound and a pattern, and a value that violates both.\<close>

definition ex_code_validation :: validation where
  "ex_code_validation =
     \<lparr>v_min = None, v_max = None, v_minLength = Some (Fin 5), v_maxLength = None,
      v_pattern = Some ''^[0-9]+$'', v_message = None\<rparr>"

definition ex_form_b :: "validation \<Rightarrow> client_form" where
  "ex_form_b v = \<lparr>cf_type = ''standard'',
                   cf_fields = [ex_field ''code'' False (Some v) None],
                   cf_pages = None\<rparr>"

definition ex_data_b :: "(string \<times> jsval) list" where
  "ex_data_b = [(''code'', JStr ''ab'')]"

text \<open>A field whose first rule has an operator that \<open>evaluateCondition\<close> does not know.\<close>

definition ex_unknown_rule :: rule where
  "ex_unknown_rule = \<lparr>r_field = ''other'', r_operator = ''matches'', r_value = JStr ''x''\<rparr>"

definition ex_guarded :: field where
  "ex_guarded =
     ex_field ''guarded'' True None
       (Some \<lparr>enabled = True,
              rules = [ex_unknown_rule,
                       \<lparr>r_field = ''other'', r_operator = ''is_not_empty'', r_value = JUndefined\<rparr>],
              logicalOperator = Some ''AND''\<rparr>)"

section \<open>Evaluation of the examples\<close>

lemma ex_submission_sel:
  "sid (ex_submission i f p m n) = i"
  "form (ex_submission i f p m n) = f"
  "masterSubmission (ex_submission i f p m n) = m"
  "parentSubmission (ex_submission i f p m n) = p"
  "isDeleted (ex_submission i f p m n) = False"
  "status (ex_submission i f p m n) = ''submitted''"
  "priority (ex_submission i f p m n) = ''medium''"
  "submissionNumber (ex_submission i f p m n) = Some n"
  by (simp_all add: ex_submission_def)

lemma validate_ex_submission: "validate (ex_submission i f p m n) = None"
  by (simp add: validate_def ex_submission_sel status_enum_def priority_enum_def)

section \<open>The collection\<close>

lemma findById_sid: "findById subs i = Some s \<Longrightarrow> sid s = i"
  by (auto simp: findById_def find_Some_iff)

lemma findById_mem: "findById subs i = Some s \<Longrightarrow> s \<in> set subs"
  by (auto simp: findById_def find_Some_iff)

lemma pre_save_existing: "pre_save now False subs doc = doc\<lparr>updatedAt := Some now\<rparr>"
  by (simp add: pre_save_def Let_def)

lemma validate_cong:
  "status a = status b \<Longrightarrow> priority a = priority b \<Longrightarrow> validate a = validate b"
  by (simp add: validate_def)

lemma save_valid:
  "validate doc = None \<Longrightarrow>
     save now doc subs =
       Inr (doc\<lparr>updatedAt := Some now\<rparr>,
            map (\<lambda>s. if sid s = sid doc then doc\<lparr>updatedAt := Some now\<rparr> else s) subs)"
  by (simp add: save_def pre_save_existing Let_def)

lemma save_invalid: "validate doc = Some e \<Longrightarrow> save now doc subs = Inl e"
  by (simp add: save_def)

section \<open>deleteSubmission\<close>

lemma deleteSubmission_master:
  assumes found: "findById (submissions db) i = Some sub"
    and live: "\<not> isDeleted sub"
    and frm: "findFormById (forms db) (form sub) = Some f"
    and master: "form_type f = ''master''"
    and casc: "masterForm f = Some m" "cascadeDelete m"
    and may: "canDelete usr sub (Some f) = Inr True"
    and valid: "validate sub = None"
  shows "deleteSubmission now usr i db =
           (Ok 200,
            db\<lparr>submissions :=
                 cascade now (uid usr) i
                   (map (\<lambda>s. if sid s = i
                              then sub\<lparr>isDeleted := True, deletedAt := Some now,
                                       deletedBy := Some (uid usr), updatedAt := Some now\<rparr>
                              else s) (submissions db))\<rparr>)"
proof -
  have sid: "sid sub = i" using found by (rule findById_sid)
  have v: "validate (sub\<lparr>isDeleted := True, deletedAt := Some now, deletedBy := Some (uid usr)\<rparr>) = None"
    using valid validate_cong[of "sub\<lparr>isDeleted := True, deletedAt := Some now, deletedBy := Some (uid usr)\<rparr>" sub]
    by simp
  show ?thesis
    unfolding deleteSubmission_def
    by (simp add: found live frm master casc may save_valid[OF v] sid Let_def)
qed

text \<open>
  Claim C8. Soft-deleting a submission whose form has type \<open>master\<close> with
  \<open>cascadeDelete\<close> enabled succeeds and sets \<open>isDeleted\<close> on exactly the deleted
  submission and the submissions whose \<open>masterSubmission\<close> is its id: each of those gets
  \<open>isDeleted\<close>, \<open>deletedAt\<close> and \<open>deletedBy\<close> and keeps every other path, and every other
  stored submission, a child linked by \<open>parentSubmission\<close> only among them, is left as it
  was.
\<close>

theorem deleteSubmission_cascade:
  assumes found: "findById (submissions db) i = Some sub"
    and live: "\<not> isDeleted sub"
    and frm: "findFormById (forms db) (form sub) = Some f"
    and master: "form_type f = ''master''"
    and casc: "masterForm f = Some m" "cascadeDelete m"
    and may: "canDelete usr sub (Some f) = Inr True"
    and valid: "validate sub = None"
    and k: "k < length (submissions db)"
  shows "fst (deleteSubmission now usr i db) = Ok 200 \<and>
         length (submissions (snd (deleteSubmission now usr i db))) = length (submissions db) \<and>
         (masterSubmission (submissions db ! k) = Some i \<longrightarrow>
            isDeleted (submissions (snd (deleteSubmission now usr i db)) ! k)) \<and>
         (masterSubmission (submissions db ! k) = Some i \<and> sid (submissions db ! k) \<noteq> i \<longrightarrow>
            submissions (snd (deleteSubmission now usr i db)) ! k =
              (submissions db ! k)\<lparr>isDeleted := True, deletedAt := Some now,
                                     deletedBy := Some (uid usr)\<rparr>) \<and>
         (masterSubmission (submissions db ! k) \<noteq> Some i \<and> sid (submissions db ! k) \<noteq> i \<longrightarrow>
            submissions (snd (deleteSubmission now usr i db)) ! k = submissions db ! k) \<and>
         (sid (submissions db ! k) = i \<longrightarrow>
            isDeleted (submissions (snd (deleteSubmission now usr i db)) ! k))"
  using k
  by (simp add: deleteSubmission_master[OF found live frm master casc may valid] cascade_def)

text \<open>Scenario D on the example collection: the master (index 0) and its two details
  (1, 2) are deleted, the repeater child (3) and the unrelated submission (4) are not.\<close>

theorem deleteSubmission_cascade_witness:
  "fst (deleteSubmission ex_now ex_admin 1 ex_master_db) = Ok 200 \<and>
   isDeleted (submissions (snd (deleteSubmission ex_now ex_admin 1 ex_master_db)) ! 0) \<and>
   isDeleted (submissions (snd (deleteSubmission ex_now ex_admin 1 ex_master_db)) ! 1) \<and>
   isDeleted (submissions (snd (deleteSubmission ex_now ex_admin 1 ex_master_db)) ! 2) \<and>
   submissions (snd (deleteSubmission ex_now ex_admin 1 ex_master_db)) ! 3 = submissions ex_master_db ! 3 \<and>
   submissions (snd (deleteSubmission ex_now ex_admin 1 ex_master_db)) ! 4 = submissions ex_master_db ! 4 \<and>
   parentSubmission (submissions ex_master_db ! 3) = Some 1 \<and>
   \<not> isDeleted (submissions ex_master_db ! 3)"
proof -
  let ?sub = "ex_submission 1 10 None None ''SUB-202405-00001''"
  let ?f = "ex_form 10 ''master'' (Some \<lparr>mf_formId = None, cascadeDelete = True\<rparr>)"
  have found: "findById (submissions ex_master_db) 1 = Some ?sub"
    by (simp add: findById_def ex_master_db_def ex_submission_sel)
  have live: "\<not> isDeleted ?sub" by (simp add: ex_submission_sel)
  have frm: "findFormById (forms ex_master_db) (form ?sub) = Some ?f"
    by (simp add: findFormById_def ex_master_db_def ex_form_def ex_submission_sel)
  have master: "form_type ?f = ''master''" by (simp add: ex_form_def)
  have casc: "masterForm ?f = Some \<lparr>mf_formId = None, cascadeDelete = True\<rparr>"
    "cascadeDelete \<lparr>mf_formId = None, cascadeDelete = True\<rparr>"
    by (simp_all add: ex_form_def)
  have may: "canDelete ex_admin ?sub (Some ?f) = Inr True"
    by (simp add: canDelete_def ex_admin_def)
  have valid: "validate ?sub = None" by (rule validate_ex_submission)
  note T = deleteSubmission_cascade[OF found live frm master casc may valid, of _ ex_now]
  have len: "length (submissions ex_master_db) = 5" by (simp add: ex_master_db_def)
  have nth: "submissions ex_master_db ! 0 = ?sub"
    "submissions ex_master_db ! Suc 0 = ex_submission 2 11 None (Some 1) ''SUB-202405-00002''"
    "submissions ex_master_db ! 2 = ex_submission 3 11 None (Some 1) ''SUB-202405-00003''"
    "submissions ex_master_db ! 3 = ex_submission 4 12 (Some 1) None ''SUB-202405-00004''"
    "submissions ex_master_db ! 4 = ex_submission 5 12 None None ''SUB-202405-00005''"
    by (simp_all add: ex_master_db_def)
  show ?thesis
    using T[of 0] T[of 1] T[of 2] T[of 3] T[of 4]
    by (simp add: len nth ex_submission_sel)
qed

section \<open>updateSubmissionStatus\<close>


lemma same_id_same_doc:
  assumes d: "distinct (map sid subs)" and f: "findById subs i = Some sub"
    and k: "k < length subs" and s: "sid (subs ! k) = i"
  shows "subs ! k = sub"
proof -
  from f have "sub \<in> set subs" by (rule findById_mem)
  then obtain j where j: "j < length subs" "subs ! j = sub" by (auto simp: in_set_conv_nth)
  from f have "sid sub = i" by (rule findById_sid)
  with j s k have "map sid subs ! j = map sid subs ! k" by simp
  moreover have "j < length (map sid subs)" "k < length (map sid subs)" using j k by simp_all
  ultimately have "j = k" using d by (simp only: nth_eq_iff_index_eq)
  with j show ?thesis by simp
qed

lemma replace_twice:
  "sid d1 = i \<Longrightarrow>
   map (\<lambda>s. if sid s = i then d2 else s) (map (\<lambda>s. if sid s = i then d1 else s) subs) =
   map (\<lambda>s. if sid s = i then d2 else s) subs"
  by (induction subs) auto

lemma save_Inr:
  "save now doc subs = Inr (d, subs') \<Longrightarrow>
     d = doc\<lparr>updatedAt := Some now\<rparr> \<and> subs' = map (\<lambda>s. if sid s = sid doc then d else s) subs"
  by (auto simp: save_def pre_save_existing Let_def split: option.splits)

lemma updateStatus_Inr:
  assumes "updateStatus now u st c this subs = Inr (d, subs')"
  shows "sid d = sid this"
    and "subs' = map (\<lambda>s. if sid s = sid this then d else s) subs"
    and "workflowHistory d = workflowHistory this @
           [\<lparr>h_stage = currentStage this, h_user = u,
             h_action = ''Status changed from '' @ status this @ '' to '' @ st,
             h_comment = c, h_timestamp = now\<rparr>]"
    and "submissionNumber d = submissionNumber this"
    and "currentStage d = currentStage this"
    and "status d = st"
    and "priority d = priority this"
  using assms
  by (auto simp: updateStatus_def Let_def dest!: save_Inr)


lemma or_else_truthy: "truthy_str a \<Longrightarrow> or_else a b = the a"
  by (auto simp: truthy_str_def or_else_def split: option.splits)

lemma or_else_falsy: "\<not> truthy_str a \<Longrightarrow> or_else a b = b"
  by (auto simp: truthy_str_def or_else_def split: option.splits)

lemma updateSubmissionStatus_shape:
  assumes found: "findById (submissions db) i = Some sub" and live: "\<not> isDeleted sub"
  shows "(fst (updateSubmissionStatus now usr i body db) \<noteq> Ok 200
            \<and> snd (updateSubmissionStatus now usr i body db) = db)
         \<or> (\<exists>d. snd (updateSubmissionStatus now usr i body db) =
                    db\<lparr>submissions := map (\<lambda>s. if sid s = i then d else s) (submissions db)\<rparr>
               \<and> sid d = i
               \<and> submissionNumber d = submissionNumber sub
               \<and> prefix (workflowHistory sub) (workflowHistory d)
               \<and> (fst (updateSubmissionStatus now usr i body db) = Ok 200 \<longrightarrow>
                     workflowHistory d =
                       workflowHistory sub @
                         (\<lparr>h_stage = or_else (b_currentStage body) (currentStage sub),
                           h_user = uid usr,
                           h_action = or_else (b_status body) ''updated'',
                           h_comment = b_comment body, h_timestamp = now\<rparr>
                          # (if truthy_str (b_status body)
                             then [\<lparr>h_stage = currentStage sub, h_user = uid usr,
                                    h_action = ''Status changed from '' @ status sub @ '' to ''
                                               @ the (b_status body),
                                    h_comment = b_comment body, h_timestamp = now\<rparr>]
                             else []))
                     \<and> currentStage d = or_else (b_currentStage body) (currentStage sub)
                     \<and> status d = or_else (b_status body) (status sub)
                     \<and> priority d = or_else (b_priority body) (priority sub)))"
    (is "?fail \<or> ?stored")
proof -
  let ?R = "updateSubmissionStatus now usr i body db"
  have sid: "sid sub = i" using found by (rule findById_sid)
  define e1 where "e1 = \<lparr>h_stage = or_else (b_currentStage body) (currentStage sub),
                           h_user = uid usr,
                           h_action = or_else (b_status body) ''updated'',
                           h_comment = b_comment body, h_timestamp = now\<rparr>"
  define sub1 where "sub1 = sub\<lparr>workflowHistory := workflowHistory sub @ [e1]\<rparr>"
  define r1 where "r1 = (if truthy_str (b_status body)
                      then updateStatus now (uid usr) (the (b_status body)) (b_comment body)
                             sub1 (submissions db)
                      else Inr (sub1, submissions db))"
  define F :: "submission \<Rightarrow> submission" where "F = (\<lambda>sub2.
       let sub3 = (if truthy_str (b_currentStage body)
                   then sub2\<lparr>currentStage := the (b_currentStage body)\<rparr> else sub2);
           sub4 = (if truthy_str (b_priority body)
                   then sub3\<lparr>priority := the (b_priority body)\<rparr> else sub3)
       in (if b_status body = Some ''completed'' \<or> b_status body = Some ''approved''
           then sub4\<lparr>completedAt := Some now, completedBy := Some (uid usr)\<rparr>
           else sub4))"
  have F: "sid (F x) = sid x" "workflowHistory (F x) = workflowHistory x"
    "submissionNumber (F x) = submissionNumber x" "status (F x) = status x"
    "currentStage (F x) = or_else (b_currentStage body) (currentStage x)"
    "priority (F x) = or_else (b_priority body) (priority x)" for x
    by (simp_all add: F_def Let_def or_else_truthy or_else_falsy)
  have unfold: "?R =
      (case r1 of
         Inl e \<Rightarrow> (Fail 500 (message e), db)
       | Inr (sub2, subs2) \<Rightarrow>
           (case save now (F sub2) subs2 of
              Inl e \<Rightarrow> (Fail 500 (message e), db\<lparr>submissions := subs2\<rparr>)
            | Inr (sub6, subs3) \<Rightarrow> (Ok 200, db\<lparr>submissions := subs3\<rparr>)))"
    unfolding updateSubmissionStatus_def r1_def sub1_def e1_def F_def Let_def
    by (simp add: found live)
  show ?thesis
  proof (cases r1)
    case (Inl e)
    then have "?R = (Fail 500 (message e), db)" by (simp add: unfold)
    then show ?thesis by simp
  next
    case (Inr p)
    obtain sub2 subs2 where p: "p = (sub2, subs2)" by (cases p)
    have r1: "r1 = Inr (sub2, subs2)" using Inr p by simp
    let ?new = "e1 # (if truthy_str (b_status body)
                  then [\<lparr>h_stage = currentStage sub, h_user = uid usr,
                         h_action = ''Status changed from '' @ status sub @ '' to ''
                                    @ the (b_status body),
                         h_comment = b_comment body, h_timestamp = now\<rparr>]
                  else [])"
    have s2c: "sid sub2 = i \<and>
          (subs2 = submissions db \<or> subs2 = map (\<lambda>s. if sid s = i then sub2 else s) (submissions db)) \<and>
          submissionNumber sub2 = submissionNumber sub \<and>
          currentStage sub2 = currentStage sub \<and>
          priority sub2 = priority sub \<and>
          status sub2 = or_else (b_status body) (status sub) \<and>
          workflowHistory sub2 = workflowHistory sub @ ?new"
    proof (cases "truthy_str (b_status body)")
      case True
      with r1 have u: "updateStatus now (uid usr) (the (b_status body)) (b_comment body)
                           sub1 (submissions db) = Inr (sub2, subs2)"
        by (simp add: r1_def)
      show ?thesis
        using updateStatus_Inr[OF u] True
        by (simp add: sub1_def sid or_else_truthy)
    next
      case False
      with r1 have "sub2 = sub1" "subs2 = submissions db" by (simp_all add: r1_def)
      then show ?thesis
        using False by (simp add: sub1_def sid or_else_falsy)
    qed
    then have s2: "sid sub2 = i"
      "subs2 = submissions db \<or> subs2 = map (\<lambda>s. if sid s = i then sub2 else s) (submissions db)"
      "submissionNumber sub2 = submissionNumber sub"
      "currentStage sub2 = currentStage sub"
      "priority sub2 = priority sub"
      "status sub2 = or_else (b_status body) (status sub)"
      "workflowHistory sub2 = workflowHistory sub @ ?new"
      by blast+
    show ?thesis
    proof (cases "save now (F sub2) subs2")
      case (Inl e)
      then have R: "?R = (Fail 500 (message e), db\<lparr>submissions := subs2\<rparr>)"
        by (simp add: unfold r1)
      from s2(2) show ?thesis
      proof
        assume "subs2 = submissions db"
        with R show ?thesis by simp
      next
        assume "subs2 = map (\<lambda>s. if sid s = i then sub2 else s) (submissions db)"
        with R s2 have ?stored
          by (intro exI[of _ sub2]) simp
        then show ?thesis ..
      qed
    next
      case (Inr q)
      obtain sub6 subs3 where q: "q = (sub6, subs3)" by (cases q)
      from Inr q have sv: "save now (F sub2) subs2 = Inr (sub6, subs3)" by simp
      from save_Inr[OF sv] have d6: "sub6 = (F sub2)\<lparr>updatedAt := Some now\<rparr>"
        and subs3: "subs3 = map (\<lambda>s. if sid s = i then sub6 else s) subs2"
        by (simp_all add: F s2)
      have subs3': "subs3 = map (\<lambda>s. if sid s = i then sub6 else s) (submissions db)"
        using s2(2) subs3 replace_twice[OF s2(1)] by auto
      have R: "?R = (Ok 200, db\<lparr>submissions := subs3\<rparr>)"
        by (simp add: unfold r1 sv)
      have ?stored
        by (intro exI[of _ sub6]) (simp add: R subs3' d6 F s2 e1_def)
      then show ?thesis ..
    qed
  qed
qed


lemma validate_None_iff:
  "validate d = None \<longleftrightarrow> status d \<in> set status_enum \<and> priority d \<in> set priority_enum"
  by (simp add: validate_def)

lemma findById_replace:
  "findById subs i = Some sub \<Longrightarrow> sid d = i \<Longrightarrow>
     findById (map (\<lambda>s. if sid s = i then d else s) subs) i = Some d"
  by (induction subs) (auto simp: findById_def)

lemma same_id_mem:
  assumes d: "distinct (map sid subs)" and f: "findById subs i = Some sub"
    and s: "s \<in> set subs" "sid s = i"
  shows "s = sub"
proof -
  from d have "inj_on sid (set subs)" by (simp add: distinct_map)
  moreover have "sub \<in> set subs" using f by (rule findById_mem)
  moreover have "sid sub = sid s" using f s by (simp add: findById_sid)
  ultimately show ?thesis using s(1) by (auto dest: inj_onD)
qed

lemma updateSubmissionStatus_missing:
  "findById (submissions db) i = None \<or>
     (\<exists>sub. findById (submissions db) i = Some sub \<and> isDeleted sub) \<Longrightarrow>
   updateSubmissionStatus now usr i body db = (Fail 404 ''Submission not found'', db)"
  by (auto simp: updateSubmissionStatus_def)

lemma updateSubmissionStatus_ok:
  assumes found: "findById (submissions db) i = Some sub" and live: "\<not> isDeleted sub"
    and valid: "validate sub = None"
    and st: "or_else (b_status body) (status sub) \<in> set status_enum"
    and pr: "or_else (b_priority body) (priority sub) \<in> set priority_enum"
  shows "fst (updateSubmissionStatus now usr i body db) = Ok 200"
proof -
  from valid have old: "status sub \<in> set status_enum" "priority sub \<in> set priority_enum"
    by (simp_all add: validate_None_iff)
  show ?thesis
  proof (cases "truthy_str (b_status body)")
    case True
    with st have new: "the (b_status body) \<in> set status_enum" by (simp add: or_else_truthy)
    show ?thesis
      unfolding updateSubmissionStatus_def updateStatus_def Let_def
      using new old pr
      by (cases "truthy_str (b_priority body)")
         (simp_all add: found live True save_valid validate_None_iff or_else_truthy or_else_falsy)
  next
    case False
    then have nc: "b_status body \<noteq> Some ''completed''" "b_status body \<noteq> Some ''approved''"
      by (auto simp: truthy_str_def)
    show ?thesis
      unfolding updateSubmissionStatus_def updateStatus_def Let_def
      using old pr
      by (cases "truthy_str (b_priority body)")
         (simp_all add: found live False nc save_valid validate_None_iff or_else_truthy or_else_falsy)
  qed
qed


lemma updateSubmissionStatus_stored:
  assumes found: "findById (submissions db) i = Some sub" and live: "\<not> isDeleted sub"
    and valid: "validate sub = None"
    and st: "or_else (b_status body) (status sub) \<in> set status_enum"
    and pr: "or_else (b_priority body) (priority sub) \<in> set priority_enum"
  shows "\<exists>d. findById (submissions (snd (updateSubmissionStatus now usr i body db))) i = Some d
            \<and> submissionNumber d = submissionNumber sub
            \<and> workflowHistory d =
                 workflowHistory sub @
                   (\<lparr>h_stage = or_else (b_currentStage body) (currentStage sub),
                     h_user = uid usr,
                     h_action = or_else (b_status body) ''updated'',
                     h_comment = b_comment body, h_timestamp = now\<rparr>
                    # (if truthy_str (b_status body)
                       then [\<lparr>h_stage = currentStage sub, h_user = uid usr,
                              h_action = ''Status changed from '' @ status sub @ '' to ''
                                         @ the (b_status body),
                              h_comment = b_comment body, h_timestamp = now\<rparr>]
                       else []))
            \<and> currentStage d = or_else (b_currentStage body) (currentStage sub)
            \<and> status d = or_else (b_status body) (status sub)
            \<and> priority d = or_else (b_priority body) (priority sub)"
proof -
  have ok: "fst (updateSubmissionStatus now usr i body db) = Ok 200"
    using found live valid st pr by (rule updateSubmissionStatus_ok)
  from updateSubmissionStatus_shape[OF found live, of now usr body] ok
  obtain d where d: "snd (updateSubmissionStatus now usr i body db) =
                    db\<lparr>submissions := map (\<lambda>s. if sid s = i then d else s) (submissions db)\<rparr>"
    "sid d = i" "submissionNumber d = submissionNumber sub"
    "workflowHistory d =
                 workflowHistory sub @
                   (\<lparr>h_stage = or_else (b_currentStage body) (currentStage sub),
                     h_user = uid usr,
                     h_action = or_else (b_status body) ''updated'',
                     h_comment = b_comment body, h_timestamp = now\<rparr>
                    # (if truthy_str (b_status body)
                       then [\<lparr>h_stage = currentStage sub, h_user = uid usr,
                              h_action = ''Status changed from '' @ status sub @ '' to ''
                                         @ the (b_status body),
                              h_comment = b_comment body, h_timestamp = now\<rparr>]
                       else []))"
     "currentStage d = or_else (b_currentStage body) (currentStage sub)"
     "status d = or_else (b_status body) (status sub)"
     "priority d = or_else (b_priority body) (priority sub)"
    by auto
  have "findById (submissions (snd (updateSubmissionStatus now usr i body db))) i = Some d"
    using findById_replace[OF found d(2)] by (simp add: d(1))
  with d show ?thesis by blast
qed

text \<open>
  Claim C2, as amended. \<open>updateSubmissionStatus\<close> does not look at any workflow action
  or at its \<open>requireComment\<close> flag: for every stored, not deleted, schema-valid submission
  and every request whose status and priority, when given, are values of the schema's
  enumerations, the call answers 200 for every comment \<open>c\<close>, missing, empty or not, and
  whatever workflows are stored; the stored submission then has the requested status and
  stage, and the entry appended last records the comment as it was given.
\<close>

theorem updateSubmissionStatus_comment_not_required:
  assumes found: "findById (submissions db) i = Some sub"
    and live: "\<not> isDeleted sub"
    and valid: "validate sub = None"
    and st: "or_else (b_status body) (status sub) \<in> set status_enum"
    and pr: "or_else (b_priority body) (priority sub) \<in> set priority_enum"
  shows "fst (updateSubmissionStatus now usr i (body\<lparr>b_comment := c\<rparr>) (db\<lparr>workflows := ws\<rparr>)) = Ok 200 \<and>
         (\<exists>d. findById (submissions (snd (updateSubmissionStatus now usr i (body\<lparr>b_comment := c\<rparr>)
                                              (db\<lparr>workflows := ws\<rparr>)))) i = Some d
              \<and> status d = or_else (b_status body) (status sub)
              \<and> currentStage d = or_else (b_currentStage body) (currentStage sub)
              \<and> h_comment (last (workflowHistory d)) = c)"
proof -
  let ?db = "db\<lparr>workflows := ws\<rparr>" and ?body = "body\<lparr>b_comment := c\<rparr>"
  have found': "findById (submissions ?db) i = Some sub" using found by simp
  have st': "or_else (b_status ?body) (status sub) \<in> set status_enum" using st by simp
  have pr': "or_else (b_priority ?body) (priority sub) \<in> set priority_enum" using pr by simp
  have ok: "fst (updateSubmissionStatus now usr i ?body ?db) = Ok 200"
    using found' live valid st' pr' by (rule updateSubmissionStatus_ok)
  from updateSubmissionStatus_stored[OF found' live valid st' pr', of now usr]
  obtain d where "findById (submissions (snd (updateSubmissionStatus now usr i ?body ?db))) i = Some d"
    "status d = or_else (b_status body) (status sub)"
    "currentStage d = or_else (b_currentStage body) (currentStage sub)"
    "h_comment (last (workflowHistory d)) = c"
    by auto
  with ok show ?thesis by blast
qed


lemmas ex_data_defs =
  ex_review_db_def ex_in_review_def ex_submission_def ex_form_def ex_permissions_def
  ex_settings_def ex_admin_def ex_reviewer_def ex_user_def ex_reject_body_def ex_stage_body_def
  ex_reject_def ex_approve_def ex_stage_def ex_workflow_def

lemmas update_defs =
  updateSubmissionStatus_def updateStatus_def findById_def save_def validate_def
  status_enum_def priority_enum_def pre_save_def truthy_str_def or_else_def Let_def

lemma ex_in_review_facts:
  "findById (submissions ex_review_db) 1 = Some ex_in_review"
  "\<not> isDeleted ex_in_review"
  "validate ex_in_review = None"
  "status ex_in_review = ''in_review''"
  "priority ex_in_review = ''medium''"
  "currentStage ex_in_review = ''review''"
  by (simp_all add: ex_review_db_def ex_in_review_def findById_def ex_submission_sel
      validate_def status_enum_def priority_enum_def)

text \<open>The two calls of Scenario C, without a comment and with one, both answer 200.\<close>

theorem updateSubmissionStatus_comment_not_required_witness:
  "fst (updateSubmissionStatus ex_now ex_reviewer 1 ((ex_reject_body None)\<lparr>b_comment := None\<rparr>)
          (ex_review_db\<lparr>workflows := [ex_workflow]\<rparr>)) = Ok 200 \<and>
   fst (updateSubmissionStatus ex_now ex_reviewer 1
          ((ex_reject_body None)\<lparr>b_comment := Some ''needs revision''\<rparr>)
          (ex_review_db\<lparr>workflows := [ex_workflow]\<rparr>)) = Ok 200"
proof -
  have st: "or_else (b_status (ex_reject_body None)) (status ex_in_review) \<in> set status_enum"
    by (simp add: ex_reject_body_def or_else_def status_enum_def)
  have pr: "or_else (b_priority (ex_reject_body None)) (priority ex_in_review) \<in> set priority_enum"
    by (simp add: ex_reject_body_def or_else_def priority_enum_def ex_in_review_facts)
  note T = updateSubmissionStatus_comment_not_required
             [OF ex_in_review_facts(1) ex_in_review_facts(2) ex_in_review_facts(3) st pr,
              of ex_now ex_reviewer _ "[ex_workflow]"]
  from T[of None] T[of "Some ''needs revision''"] show ?thesis by blast
qed

text \<open>
  Scenario C on the code: the action \<open>reject\<close> of the stage \<open>review\<close> requires a comment,
  the request carries none, and the call answers 200 and stores the new status, the new
  stage and a longer history.
\<close>

theorem requireComment_counterexample:
  "requireComment ex_reject \<and>
   ex_reject \<in> set (actions (stages ex_workflow ! 1)) \<and>
   stage_id (stages ex_workflow ! 1) = currentStage ex_in_review \<and>
   b_comment (ex_reject_body None) = None \<and>
   fst (updateSubmissionStatus ex_now ex_reviewer 1 (ex_reject_body None) ex_review_db) = Ok 200 \<and>
   map status (submissions (snd (updateSubmissionStatus ex_now ex_reviewer 1 (ex_reject_body None)
                                   ex_review_db))) = [''rejected''] \<and>
   map currentStage (submissions (snd (updateSubmissionStatus ex_now ex_reviewer 1
                                         (ex_reject_body None) ex_review_db))) = [''rejected''] \<and>
   map (\<lambda>s. length (workflowHistory s))
     (submissions (snd (updateSubmissionStatus ex_now ex_reviewer 1 (ex_reject_body None)
                          ex_review_db))) = [3] \<and>
   length (workflowHistory ex_in_review) = 1"
  by (simp add: update_defs ex_data_defs)

text \<open>
  A request for a stage the submission's workflow does not declare: the call answers 200
  and stores the stage.
\<close>

theorem unknown_stage_counterexample:
  "form_workflow (ex_form 20 ''standard'' None) = Some (wid ex_workflow) \<and>
   map stage_id (stages ex_workflow) = [''submitted'', ''review'', ''approved'', ''rejected''] \<and>
   b_currentStage ex_stage_body = Some ''no_such_stage'' \<and>
   updateSubmissionStatus ex_now ex_reviewer 1 ex_stage_body ex_review_db =
     (Ok 200,
      ex_review_db\<lparr>submissions :=
        [ex_in_review\<lparr>currentStage := ''no_such_stage'',
           workflowHistory := workflowHistory ex_in_review @
             [\<lparr>h_stage = ''no_such_stage'', h_user = 2, h_action = ''updated'',
               h_comment = None, h_timestamp = ex_now\<rparr>],
           updatedAt := Some ex_now\<rparr>]\<rparr>)"
  by (simp add: update_defs ex_data_defs)


lemma cascade_nth:
  "k < length subs \<Longrightarrow>
     workflowHistory (cascade now u m subs ! k) = workflowHistory (subs ! k) \<and>
     submissionNumber (cascade now u m subs ! k) = submissionNumber (subs ! k) \<and>
     sid (cascade now u m subs ! k) = sid (subs ! k)"
  by (simp add: cascade_def)

lemma cascade_length: "length (cascade now u m subs) = length subs"
  by (simp add: cascade_def)

lemma deleteSubmission_shape:
  assumes found: "findById (submissions db) i = Some sub"
  shows "snd (deleteSubmission now usr i db) = db
       \<or> snd (deleteSubmission now usr i db) =
           db\<lparr>submissions :=
                map (\<lambda>s. if sid s = i
                          then sub\<lparr>isDeleted := True, deletedAt := Some now,
                                   deletedBy := Some (uid usr), updatedAt := Some now\<rparr>
                          else s) (submissions db)\<rparr>
       \<or> snd (deleteSubmission now usr i db) =
           db\<lparr>submissions :=
                cascade now (uid usr) i
                  (map (\<lambda>s. if sid s = i
                             then sub\<lparr>isDeleted := True, deletedAt := Some now,
                                      deletedBy := Some (uid usr), updatedAt := Some now\<rparr>
                             else s) (submissions db))\<rparr>"
proof -
  have sid: "sid sub = i" using found by (rule findById_sid)
  let ?doc = "sub\<lparr>isDeleted := True, deletedAt := Some now, deletedBy := Some (uid usr)\<rparr>"
  show ?thesis
  proof (cases "validate ?doc")
    case None
    show ?thesis
      unfolding deleteSubmission_def Let_def
      by (simp add: found save_valid[OF None] sid
            split: sum.splits bool.splits option.splits)
  next
    case (Some e)
    show ?thesis
      unfolding deleteSubmission_def Let_def
      by (simp add: found save_invalid[OF Some] split: sum.splits bool.splits)
  qed
qed

lemma deleteSubmission_missing:
  "findById (submissions db) i = None \<Longrightarrow> snd (deleteSubmission now usr i db) = db"
  by (simp add: deleteSubmission_def)

text \<open>What the two controllers keep of every stored submission.\<close>

lemma deleteSubmission_keeps:
  assumes d: "distinct (map sid (submissions db))" and k: "k < length (submissions db)"
  shows "length (submissions (snd (deleteSubmission now usr i db))) = length (submissions db)
       \<and> workflowHistory (submissions (snd (deleteSubmission now usr i db)) ! k)
           = workflowHistory (submissions db ! k)
       \<and> submissionNumber (submissions (snd (deleteSubmission now usr i db)) ! k)
           = submissionNumber (submissions db ! k)"
proof (cases "findById (submissions db) i")
  case None
  then show ?thesis by (simp add: deleteSubmission_missing)
next
  case (Some sub)
  have same: "sid (submissions db ! k) = i \<Longrightarrow> submissions db ! k = sub"
    using same_id_same_doc[OF d Some k] .
  from deleteSubmission_shape[OF Some, of now usr]
  show ?thesis
    using k same by (auto simp: cascade_def)
qed

lemma updateSubmissionStatus_keeps:
  assumes d: "distinct (map sid (submissions db))" and k: "k < length (submissions db)"
  shows "length (submissions (snd (updateSubmissionStatus now usr i body db))) = length (submissions db)
       \<and> prefix (workflowHistory (submissions db ! k))
            (workflowHistory (submissions (snd (updateSubmissionStatus now usr i body db)) ! k))
       \<and> (sid (submissions db ! k) \<noteq> i \<longrightarrow>
            submissions (snd (updateSubmissionStatus now usr i body db)) ! k = submissions db ! k)
       \<and> submissionNumber (submissions (snd (updateSubmissionStatus now usr i body db)) ! k)
           = submissionNumber (submissions db ! k)
       \<and> (fst (updateSubmissionStatus now usr i body db) = Ok 200 \<and> sid (submissions db ! k) = i \<longrightarrow>
            length (workflowHistory (submissions (snd (updateSubmissionStatus now usr i body db)) ! k))
              = length (workflowHistory (submissions db ! k))
                + (if truthy_str (b_status body) then 2 else 1))"
proof (cases "findById (submissions db) i = None \<or>
     (\<exists>sub. findById (submissions db) i = Some sub \<and> isDeleted sub)")
  case True
  then show ?thesis by (simp add: updateSubmissionStatus_missing)
next
  case False
  then obtain sub where found: "findById (submissions db) i = Some sub" and live: "\<not> isDeleted sub"
    by auto
  have same: "sid (submissions db ! k) = i \<Longrightarrow> submissions db ! k = sub"
    using same_id_same_doc[OF d found k] .
  from updateSubmissionStatus_shape[OF found live, of now usr body]
  show ?thesis
  proof
    assume "fst (updateSubmissionStatus now usr i body db) \<noteq> Ok 200 \<and>
            snd (updateSubmissionStatus now usr i body db) = db"
    then show ?thesis by simp
  next
    assume "\<exists>d. snd (updateSubmissionStatus now usr i body db) =
                    db\<lparr>submissions := map (\<lambda>s. if sid s = i then d else s) (submissions db)\<rparr>
               \<and> sid d = i
               \<and> submissionNumber d = submissionNumber sub
               \<and> prefix (workflowHistory sub) (workflowHistory d)
               \<and> (fst (updateSubmissionStatus now usr i body db) = Ok 200 \<longrightarrow>
                     workflowHistory d =
                       workflowHistory sub @
                         (\<lparr>h_stage = or_else (b_currentStage body) (currentStage sub),
                           h_user = uid usr,
                           h_action = or_else (b_status body) ''updated'',
                           h_comment = b_comment body, h_timestamp = now\<rparr>
                          # (if truthy_str (b_status body)
                             then [\<lparr>h_stage = currentStage sub, h_user = uid usr,
                                    h_action = ''Status changed from '' @ status sub @ '' to ''
                                               @ the (b_status body),
                                    h_comment = b_comment body, h_timestamp = now\<rparr>]
                             else []))
                     \<and> currentStage d = or_else (b_currentStage body) (currentStage sub)
                     \<and> status d = or_else (b_status body) (status sub)
                     \<and> priority d = or_else (b_priority body) (priority sub))"
    then obtain d where d: "snd (updateSubmissionStatus now usr i body db) =
                    db\<lparr>submissions := map (\<lambda>s. if sid s = i then d else s) (submissions db)\<rparr>"
      "submissionNumber d = submissionNumber sub"
      "prefix (workflowHistory sub) (workflowHistory d)"
      "fst (updateSubmissionStatus now usr i body db) = Ok 200 \<Longrightarrow>
         length (workflowHistory d) = length (workflowHistory sub)
            + (if truthy_str (b_status body) then 2 else 1)"
      by auto
    show ?thesis
    proof (cases "sid (submissions db ! k) = i")
      case True
      then have "submissions db ! k = sub" by (rule same)
      then show ?thesis using k True d(2,3,4) by (simp add: d(1))
    next
      case False
      then show ?thesis using k by (simp add: d(1))
    qed
  qed
qed


text \<open>
  Claim C3 on the code. A status update that gives a status appends two entries to the
  submission's \<open>workflowHistory\<close>, not one: the controller pushes its entry (the
  requested stage, the status as the action) and then calls \<open>updateStatus\<close>, which pushes
  another (the stage the submission was in, the action \<open>Status changed from ... to ...\<close>).
  This holds for every stored, not deleted, schema-valid submission and every request
  whose status is a value of the schema's enumeration.
\<close>

theorem status_update_appends_two_entries:
  assumes found: "findById (submissions db) i = Some sub"
    and live: "\<not> isDeleted sub"
    and valid: "validate sub = None"
    and given: "truthy_str (b_status body)"
    and st: "the (b_status body) \<in> set status_enum"
    and pr: "or_else (b_priority body) (priority sub) \<in> set priority_enum"
  shows "fst (updateSubmissionStatus now usr i body db) = Ok 200 \<and>
         map_option workflowHistory
           (findById (submissions (snd (updateSubmissionStatus now usr i body db))) i) =
           Some (workflowHistory sub @
                 [\<lparr>h_stage = or_else (b_currentStage body) (currentStage sub),
                   h_user = uid usr, h_action = the (b_status body),
                   h_comment = b_comment body, h_timestamp = now\<rparr>,
                  \<lparr>h_stage = currentStage sub, h_user = uid usr,
                   h_action = ''Status changed from '' @ status sub @ '' to '' @ the (b_status body),
                   h_comment = b_comment body, h_timestamp = now\<rparr>])"
proof -
  have st': "or_else (b_status body) (status sub) \<in> set status_enum"
    using given st by (simp add: or_else_truthy)
  have ok: "fst (updateSubmissionStatus now usr i body db) = Ok 200"
    using found live valid st' pr by (rule updateSubmissionStatus_ok)
  from updateSubmissionStatus_stored[OF found live valid st' pr, of now usr]
  obtain d where "findById (submissions (snd (updateSubmissionStatus now usr i body db))) i = Some d"
    "workflowHistory d =
       workflowHistory sub @
         (\<lparr>h_stage = or_else (b_currentStage body) (currentStage sub),
           h_user = uid usr,
           h_action = or_else (b_status body) ''updated'',
           h_comment = b_comment body, h_timestamp = now\<rparr>
          # (if truthy_str (b_status body)
             then [\<lparr>h_stage = currentStage sub, h_user = uid usr,
                    h_action = ''Status changed from '' @ status sub @ '' to ''
                               @ the (b_status body),
                    h_comment = b_comment body, h_timestamp = now\<rparr>]
             else []))"
    by auto
  with ok given show ?thesis by (simp add: or_else_truthy)
qed

text \<open>
  Scenario C with a comment, on the submission in review whose history has one entry:
  the call answers 200 and the stored history has three entries; the two new ones name
  different stages.
\<close>

theorem status_update_appends_two_entries_witness:
  "workflowHistory ex_in_review =
     [\<lparr>h_stage = ''submitted'', h_user = 3, h_action = ''submitted'', h_comment = None,
       h_timestamp = ex_now\<rparr>] \<and>
   fst (updateSubmissionStatus ex_now ex_reviewer 1 (ex_reject_body (Some ''needs revision''))
          ex_review_db) = Ok 200 \<and>
   map_option workflowHistory
     (findById (submissions (snd (updateSubmissionStatus ex_now ex_reviewer 1
                                    (ex_reject_body (Some ''needs revision'')) ex_review_db))) 1) =
     Some [\<lparr>h_stage = ''submitted'', h_user = 3, h_action = ''submitted'', h_comment = None,
            h_timestamp = ex_now\<rparr>,
           \<lparr>h_stage = ''rejected'', h_user = 2, h_action = ''rejected'',
            h_comment = Some ''needs revision'', h_timestamp = ex_now\<rparr>,
           \<lparr>h_stage = ''review'', h_user = 2,
            h_action = ''Status changed from in_review to rejected'',
            h_comment = Some ''needs revision'', h_timestamp = ex_now\<rparr>]"
proof -
  have given: "truthy_str (b_status (ex_reject_body (Some ''needs revision'')))"
    by (simp add: ex_reject_body_def truthy_str_def)
  have st: "the (b_status (ex_reject_body (Some ''needs revision''))) \<in> set status_enum"
    by (simp add: ex_reject_body_def status_enum_def)
  have pr: "or_else (b_priority (ex_reject_body (Some ''needs revision''))) (priority ex_in_review)
              \<in> set priority_enum"
    by (simp add: ex_reject_body_def or_else_def priority_enum_def ex_in_review_facts)
  have h: "workflowHistory ex_in_review =
     [\<lparr>h_stage = ''submitted'', h_user = 3, h_action = ''submitted'', h_comment = None,
       h_timestamp = ex_now\<rparr>]"
    by (simp add: ex_in_review_def ex_submission_def)
  from status_update_appends_two_entries
         [OF ex_in_review_facts(1) ex_in_review_facts(2) ex_in_review_facts(3) given st pr,
          of ex_now ex_reviewer]
  show ?thesis
    by (simp add: h ex_reject_body_def or_else_def ex_in_review_facts ex_reviewer_def)
qed

text \<open>
  What the two controllers never do to a history: whatever the answer, the history of
  every stored submission (distinct ids) before a status update is a prefix of its
  history afterwards, a submission other than the addressed one keeps its history, and a
  soft delete, cascading or not, leaves every history as it was.
\<close>

lemma workflowHistory_only_grows:
  assumes d: "distinct (map sid (submissions db))" and k: "k < length (submissions db)"
  shows "prefix (workflowHistory (submissions db ! k))
           (workflowHistory (submissions (snd (updateSubmissionStatus now usr i body db)) ! k))
       \<and> (fst (updateSubmissionStatus now usr i body db) = Ok 200 \<and> sid (submissions db ! k) = i \<longrightarrow>
            length (workflowHistory (submissions (snd (updateSubmissionStatus now usr i body db)) ! k))
              = length (workflowHistory (submissions db ! k))
                + (if truthy_str (b_status body) then 2 else 1))
       \<and> (sid (submissions db ! k) \<noteq> i \<longrightarrow>
            workflowHistory (submissions (snd (updateSubmissionStatus now usr i body db)) ! k)
              = workflowHistory (submissions db ! k))
       \<and> workflowHistory (submissions (snd (deleteSubmission now usr' j db)) ! k)
            = workflowHistory (submissions db ! k)"
proof -
  note U = updateSubmissionStatus_keeps[OF d k, of now usr i body]
  note D = deleteSubmission_keeps[OF d k, of now usr' j]
  from U have "sid (submissions db ! k) \<noteq> i \<longrightarrow>
            workflowHistory (submissions (snd (updateSubmissionStatus now usr i body db)) ! k)
              = workflowHistory (submissions db ! k)"
    by simp
  with U D show ?thesis by blast
qed

text \<open>
  Claim C4, as amended. \<open>updateSubmissionStatus\<close> never compares a stage with the stages a
  workflow declares and has no configuration error: for every stored, not deleted,
  schema-valid submission, whatever its current stage, every request with a non-empty
  \<open>currentStage\<close> (and a status and priority that, when given, are values of the schema's
  enumerations) and whatever workflows are stored, the call answers 200 and stores the
  requested stage.
\<close>

theorem updateSubmissionStatus_stage_unchecked:
  assumes found: "findById (submissions db) i = Some sub"
    and live: "\<not> isDeleted sub"
    and valid: "validate sub = None"
    and st: "or_else (b_status body) (status sub) \<in> set status_enum"
    and pr: "or_else (b_priority body) (priority sub) \<in> set priority_enum"
    and cs: "truthy_str (b_currentStage body)"
  shows "fst (updateSubmissionStatus now usr i body (db\<lparr>workflows := ws\<rparr>)) = Ok 200 \<and>
         map_option currentStage
           (findById (submissions (snd (updateSubmissionStatus now usr i body (db\<lparr>workflows := ws\<rparr>)))) i)
           = b_currentStage body"
proof -
  let ?db = "db\<lparr>workflows := ws\<rparr>"
  have found': "findById (submissions ?db) i = Some sub" using found by simp
  have ok: "fst (updateSubmissionStatus now usr i body ?db) = Ok 200"
    using found' live valid st pr by (rule updateSubmissionStatus_ok)
  from updateSubmissionStatus_stored[OF found' live valid st pr, of now usr]
  obtain d where "findById (submissions (snd (updateSubmissionStatus now usr i body ?db))) i = Some d"
    "currentStage d = or_else (b_currentStage body) (currentStage sub)"
    by auto
  moreover have "Some (or_else (b_currentStage body) (currentStage sub)) = b_currentStage body"
    using cs by (auto simp: truthy_str_def or_else_def split: option.splits)
  ultimately show ?thesis using ok by simp
qed

text \<open>The undeclared stage of the example, with the review workflow stored and with no
  workflow stored.\<close>

theorem updateSubmissionStatus_stage_unchecked_witness:
  "fst (updateSubmissionStatus ex_now ex_reviewer 1 ex_stage_body
          (ex_review_db\<lparr>workflows := [ex_workflow]\<rparr>)) = Ok 200 \<and>
   map_option currentStage
     (findById (submissions (snd (updateSubmissionStatus ex_now ex_reviewer 1 ex_stage_body
                                    (ex_review_db\<lparr>workflows := [ex_workflow]\<rparr>)))) 1)
     = Some ''no_such_stage'' \<and>
   fst (updateSubmissionStatus ex_now ex_reviewer 1 ex_stage_body
          (ex_review_db\<lparr>workflows := []\<rparr>)) = Ok 200"
proof -
  have st: "or_else (b_status ex_stage_body) (status ex_in_review) \<in> set status_enum"
    by (simp add: ex_stage_body_def or_else_def status_enum_def ex_in_review_facts)
  have pr: "or_else (b_priority ex_stage_body) (priority ex_in_review) \<in> set priority_enum"
    by (simp add: ex_stage_body_def or_else_def priority_enum_def ex_in_review_facts)
  have cs: "truthy_str (b_currentStage ex_stage_body)"
    by (simp add: ex_stage_body_def truthy_str_def)
  have b: "b_currentStage ex_stage_body = Some ''no_such_stage''"
    by (simp add: ex_stage_body_def)
  note T = updateSubmissionStatus_stage_unchecked
             [OF ex_in_review_facts(1) ex_in_review_facts(2) ex_in_review_facts(3) st pr cs,
              of ex_now ex_reviewer]
  from T[of "[ex_workflow]"] T[of "[]"] show ?thesis by (simp add: b)
qed


section \<open>The submission number\<close>

lemma period_prefix_nonempty: "period_prefix now \<noteq> []"
  by (simp add: period_prefix_def)

lemma pre_save_new_number: "truthy_str (submissionNumber (pre_save now True subs doc))"
  by (simp add: pre_save_def Let_def truthy_str_def period_prefix_nonempty)

lemma pre_save_keeps_number:
  "truthy_str (submissionNumber doc) \<or> \<not> isNew \<Longrightarrow>
     submissionNumber (pre_save now isNew subs doc) = submissionNumber doc"
  by (auto simp: pre_save_def Let_def)

lemma pre_save_keeps_status: "status (pre_save now isNew subs doc) = status doc"
  by (simp add: pre_save_def Let_def)

lemma create_Inr:
  "create now doc subs = Inr (d, subs') \<Longrightarrow> d = pre_save now True subs doc \<and> subs' = subs @ [d]"
  by (auto simp: create_def insert_doc_def Let_def split: option.splits if_splits)

lemma period_ex: "period_prefix ex_now = ''SUB-202405-''"
  by (simp add: period_prefix_def ex_now_def showNat.simps padStart_def digit_char_def)

lemma padStart_one: "padStart 5 CHR ''0'' [c] = [CHR ''0'', CHR ''0'', CHR ''0'', CHR ''0'', c]"
  by (simp add: padStart_def eval_nat_numeral)

lemma first_number:
  "period_prefix ex_now @ padStart 5 CHR ''0'' (showSeq (next_sequence (findLast (period_prefix ex_now) [])))
     = ''SUB-202405-00001''"
  by (simp add: period_ex findLast_def next_sequence_def showSeq_def showInt_def showNat.simps
      digit_char_def padStart_one)

lemma updateSubmissionStatus_length:
  "length (submissions (snd (updateSubmissionStatus now usr i body db))) = length (submissions db)"
proof (cases "findById (submissions db) i = None \<or>
     (\<exists>sub. findById (submissions db) i = Some sub \<and> isDeleted sub)")
  case True
  then show ?thesis by (simp add: updateSubmissionStatus_missing)
next
  case False
  then obtain sub where found: "findById (submissions db) i = Some sub" and live: "\<not> isDeleted sub"
    by auto
  from updateSubmissionStatus_shape[OF found live, of now usr body]
  show ?thesis by auto
qed

lemma deleteSubmission_length:
  "length (submissions (snd (deleteSubmission now usr i db))) = length (submissions db)"
proof (cases "findById (submissions db) i")
  case None
  then show ?thesis by (simp add: deleteSubmission_missing)
next
  case (Some sub)
  from deleteSubmission_shape[OF Some, of now usr]
  show ?thesis by (auto simp: cascade_length)
qed

text \<open>
  Claim C7, as amended. The pre-save hook assigns \<open>submissionNumber\<close> at the first
  persistence of a submission, its creation, whatever the status: the document that
  \<open>Submission.create\<close> stores has a number, drafts included, and a number the document
  already had is kept. No later save changes it: \<open>save\<close> on a loaded document, a status
  update and a soft delete leave the number of every stored submission (distinct ids) as
  it was.
\<close>

theorem submissionNumber_assigned_once:
  "(create now doc subs = Inr (d, subs') \<longrightarrow>
      truthy_str (submissionNumber d) \<and> status d = status doc \<and> subs' = subs @ [d] \<and>
      (truthy_str (submissionNumber doc) \<longrightarrow> submissionNumber d = submissionNumber doc)) \<and>
   (save now doc subs = Inr (d, subs') \<longrightarrow> submissionNumber d = submissionNumber doc) \<and>
   (distinct (map sid (submissions db)) \<longrightarrow>
      map submissionNumber (submissions (snd (updateSubmissionStatus now usr i body db)))
        = map submissionNumber (submissions db) \<and>
      map submissionNumber (submissions (snd (deleteSubmission now usr i db)))
        = map submissionNumber (submissions db))"
proof (intro conjI impI)
  assume c: "create now doc subs = Inr (d, subs')"
  from create_Inr[OF c] have d: "d = pre_save now True subs doc" and s: "subs' = subs @ [d]"
    by simp_all
  show "truthy_str (submissionNumber d)" by (simp add: d pre_save_new_number)
  show "status d = status doc" by (simp add: d pre_save_keeps_status)
  show "subs' = subs @ [d]" by (rule s)
  show "submissionNumber d = submissionNumber doc" if "truthy_str (submissionNumber doc)"
    using that by (simp add: d pre_save_keeps_number)
next
  assume "save now doc subs = Inr (d, subs')"
  from save_Inr[OF this] show "submissionNumber d = submissionNumber doc" by simp
next
  assume dist: "distinct (map sid (submissions db))"
  show "map submissionNumber (submissions (snd (updateSubmissionStatus now usr i body db)))
        = map submissionNumber (submissions db)"
    using updateSubmissionStatus_keeps[OF dist, of _ now usr i body]
    by (intro nth_equalityI) (simp_all add: updateSubmissionStatus_length)
  show "map submissionNumber (submissions (snd (deleteSubmission now usr i db)))
        = map submissionNumber (submissions db)"
    using deleteSubmission_keeps[OF dist, of _ now usr i]
    by (intro nth_equalityI) (simp_all add: deleteSubmission_length)
qed

text \<open>A draft created in an empty collection gets the first number of the period; saving
  it again, updating its status or deleting it keeps that number.\<close>

theorem submissionNumber_assigned_once_witness:
  "status ex_draft_doc = ''draft'' \<and> submissionNumber ex_draft_doc = None \<and>
   create ex_now ex_draft_doc [] =
     Inr (ex_draft_doc\<lparr>updatedAt := Some ex_now, submissionNumber := Some ''SUB-202405-00001''\<rparr>,
          [ex_draft_doc\<lparr>updatedAt := Some ex_now, submissionNumber := Some ''SUB-202405-00001''\<rparr>]) \<and>
   truthy_str (submissionNumber (ex_draft_doc\<lparr>updatedAt := Some ex_now,
                                    submissionNumber := Some ''SUB-202405-00001''\<rparr>)) \<and>
   map submissionNumber (submissions (snd (updateSubmissionStatus ex_now ex_reviewer 1
                                             (ex_reject_body None) ex_review_db)))
     = map submissionNumber (submissions ex_review_db) \<and>
   map submissionNumber (submissions (snd (deleteSubmission ex_now ex_admin 1 ex_master_db)))
     = map submissionNumber (submissions ex_master_db)"
proof -
  let ?d = "ex_draft_doc\<lparr>updatedAt := Some ex_now, submissionNumber := Some ''SUB-202405-00001''\<rparr>"
  have c: "create ex_now ex_draft_doc [] = Inr (?d, [?d])"
    by (simp add: create_def insert_doc_def pre_save_def first_number validate_def
        status_enum_def priority_enum_def truthy_str_def Let_def
        ex_draft_doc_def ex_new_doc_def ex_submission_def)
  have d1: "distinct (map sid (submissions ex_review_db))"
    by (simp add: ex_review_db_def)
  have d2: "distinct (map sid (submissions ex_master_db))"
    by (simp add: ex_master_db_def ex_submission_sel)
  have s: "status ex_draft_doc = ''draft''" "submissionNumber ex_draft_doc = None"
    by (simp_all add: ex_draft_doc_def ex_new_doc_def ex_submission_def)
  from submissionNumber_assigned_once[of ex_now ex_draft_doc "[]" ?d "[?d]"
         ex_review_db ex_reviewer 1 "ex_reject_body None"]
       submissionNumber_assigned_once[of ex_now ex_draft_doc "[]" ?d "[?d]"
         ex_master_db ex_admin 1 "ex_reject_body None"]
  show ?thesis using c d1 d2 s by simp
qed

text \<open>
  A submission created as a draft: \<open>createSubmission\<close> answers 201 and the stored draft
  has a number.
\<close>

theorem draft_number_counterexample:
  "c_status (ex_create_body (Some ''draft'')) = Some ''draft'' \<and>
   fst (createSubmission ex_now ex_user (ex_create_body (Some ''draft'')) ex_empty_db) = Ok 201 \<and>
   map status (submissions (snd (createSubmission ex_now ex_user (ex_create_body (Some ''draft''))
                                   ex_empty_db))) = [''draft''] \<and>
   map submissionNumber
     (submissions (snd (createSubmission ex_now ex_user (ex_create_body (Some ''draft''))
                          ex_empty_db))) = [Some ''SUB-202405-00001'']"
  by (simp add: createSubmission_def findFormById_def canSubmit_def create_def insert_doc_def
      validate_def status_enum_def priority_enum_def pre_save_def first_number truthy_str_def
      new_id_def or_else_def Let_def request_metadata_def parseBrowser_def parseOS_def
      parseDevice_def map_key_error_def starts_with_def
      ex_empty_db_def ex_form_def ex_permissions_def ex_settings_def ex_user_def ex_create_body_def)


section \<open>Permission to submit\<close>

lemma canSubmit_actor:
  "canSubmit f (Some u) \<longleftrightarrow>
     public (submitForm (form_permissions f))
     \<or> uid u \<in> set (users (submitForm (form_permissions f)))
     \<or> role u \<in> set (roles (submitForm (form_permissions f)))"
  by (simp add: canSubmit_def Let_def)

lemma canSubmit_public: "public (submitForm (form_permissions f)) \<Longrightarrow> canSubmit f usr"
  by (simp add: canSubmit_def Let_def)

text \<open>
  Claim C5 on the code. \<open>canSubmit\<close> has no clause for the role \<open>admin\<close>: on a form with
  the permissions the form builder gives (\<open>submitForm\<close>: not public, roles \<open>user\<close>, no
  users), an administrator is not allowed to submit and \<open>createSubmission\<close> answers 403
  without storing anything.
\<close>

theorem admin_denied_submit:
  "role ex_admin = ''admin'' \<and>
   submitForm (form_permissions (ex_form 20 ''standard'' None))
     = \<lparr>public = False, roles = [''user''], users = []\<rparr> \<and>
   canSubmit (ex_form 20 ''standard'' None) (Some ex_admin) = False \<and>
   createSubmission ex_now ex_admin (ex_create_body None) ex_empty_db
     = (Fail 403 ''Not authorized to submit this form'', ex_empty_db)"
  by (simp add: createSubmission_def findFormById_def canSubmit_def Let_def
      ex_empty_db_def ex_form_def ex_permissions_def ex_settings_def ex_admin_def
      ex_create_body_def)

section \<open>Simultaneous creations collide\<close>

text \<open>One creation that takes its two steps without interruption is \<open>Submission.create\<close>.\<close>

lemma run_alone:
  "run now [0, 0] ([Pending doc], subs) =
     (case create now doc subs of
        Inl e \<Rightarrow> ([Rejected e], subs)
      | Inr (d, subs') \<Rightarrow> ([Stored d], subs'))"
  by (simp add: run_def step_def advance_def create_def Let_def
      split: option.splits sum.splits)

lemma pre_save_new:
  "\<not> truthy_str (submissionNumber doc) \<Longrightarrow>
     pre_save now True subs doc =
       doc\<lparr>updatedAt := Some now,
           submissionNumber :=
             Some (period_prefix now @
                   padStart 5 CHR ''0'' (showSeq (next_sequence (findLast (period_prefix now) subs))))\<rparr>"
  by (simp add: pre_save_def Let_def)

text \<open>
  Claim C1 on the code. Two creations of documents that have no number yet start on the
  same collection at the same time. When each runs its hook before the other inserts,
  both hooks read the same last submission and give their documents the same
  \<open>submissionNumber\<close>; the unique index then rejects the second insert with a duplicate key
  error, whatever the collection held, so at most one of the two submissions is stored.
\<close>

theorem simultaneous_creations_collide:
  assumes "validate d1 = None" and "validate d2 = None"
    and "\<not> truthy_str (submissionNumber d1)" and "\<not> truthy_str (submissionNumber d2)"
  shows "run now [0, 1] ([Pending d1, Pending d2], subs) =
           ([Hooked (pre_save now True subs d1), Hooked (pre_save now True subs d2)], subs)
         \<and> submissionNumber (pre_save now True subs d1) = submissionNumber (pre_save now True subs d2)
         \<and> fst (run now [0, 1, 0, 1] ([Pending d1, Pending d2], subs)) ! 1 =
             Rejected (DuplicateKey ''E11000 duplicate key error: submissionNumber'')
         \<and> length (snd (run now [0, 1, 0, 1] ([Pending d1, Pending d2], subs))) \<le> length subs + 1"
  using assms
  by (simp add: run_def step_def advance_def pre_save_new insert_doc_def)

text \<open>
  Scenario B on an empty collection in May 2024: interleaved, both documents get
  \<open>SUB-202405-00001\<close>, one is stored and the other creation fails; taking their steps one
  after the other, the two creations get \<open>00001\<close> and \<open>00002\<close>.
\<close>

theorem simultaneous_creations_collide_witness:
  "run ex_now [0, 1] ([Pending (ex_new_doc 1), Pending (ex_new_doc 2)], []) =
     ([Hooked ((ex_new_doc 1)\<lparr>updatedAt := Some ex_now, submissionNumber := Some ''SUB-202405-00001''\<rparr>),
       Hooked ((ex_new_doc 2)\<lparr>updatedAt := Some ex_now, submissionNumber := Some ''SUB-202405-00001''\<rparr>)],
      []) \<and>
   run ex_now [0, 1, 0, 1] ([Pending (ex_new_doc 1), Pending (ex_new_doc 2)], []) =
     ([Stored ((ex_new_doc 1)\<lparr>updatedAt := Some ex_now, submissionNumber := Some ''SUB-202405-00001''\<rparr>),
       Rejected (DuplicateKey ''E11000 duplicate key error: submissionNumber'')],
      [(ex_new_doc 1)\<lparr>updatedAt := Some ex_now, submissionNumber := Some ''SUB-202405-00001''\<rparr>]) \<and>
   fst (run ex_now [0, 1, 0, 1] ([Pending (ex_new_doc 1), Pending (ex_new_doc 2)], [])) ! 1 =
     Rejected (DuplicateKey ''E11000 duplicate key error: submissionNumber'') \<and>
   map submissionNumber
     (snd (run ex_now [0, 0, 1, 1] ([Pending (ex_new_doc 1), Pending (ex_new_doc 2)], []))) =
     [Some ''SUB-202405-00001'', Some ''SUB-202405-00002'']"
proof -
  have v: "validate (ex_new_doc 1) = None" "validate (ex_new_doc 2) = None"
    by (simp_all add: ex_new_doc_def validate_def ex_submission_def status_enum_def priority_enum_def)
  have n: "\<not> truthy_str (submissionNumber (ex_new_doc 1))"
    "\<not> truthy_str (submissionNumber (ex_new_doc 2))"
    by (simp_all add: ex_new_doc_def truthy_str_def)
  have runs:
    "run ex_now [0, 1] ([Pending (ex_new_doc 1), Pending (ex_new_doc 2)], []) =
     ([Hooked ((ex_new_doc 1)\<lparr>updatedAt := Some ex_now, submissionNumber := Some ''SUB-202405-00001''\<rparr>),
       Hooked ((ex_new_doc 2)\<lparr>updatedAt := Some ex_now, submissionNumber := Some ''SUB-202405-00001''\<rparr>)],
      [])"
    "run ex_now [0, 1, 0, 1] ([Pending (ex_new_doc 1), Pending (ex_new_doc 2)], []) =
     ([Stored ((ex_new_doc 1)\<lparr>updatedAt := Some ex_now, submissionNumber := Some ''SUB-202405-00001''\<rparr>),
       Rejected (DuplicateKey ''E11000 duplicate key error: submissionNumber'')],
      [(ex_new_doc 1)\<lparr>updatedAt := Some ex_now, submissionNumber := Some ''SUB-202405-00001''\<rparr>])"
    "map submissionNumber
     (snd (run ex_now [0, 0, 1, 1] ([Pending (ex_new_doc 1), Pending (ex_new_doc 2)], []))) =
     [Some ''SUB-202405-00001'', Some ''SUB-202405-00002'']"
    by (simp_all add: run_def step_def advance_def insert_doc_def validate_def status_enum_def
      priority_enum_def pre_save_def period_ex findLast_def starts_with_def next_sequence_def
      index_def parseInt_def is_space_def digit_val_def
      showSeq_def showInt_def showNat.simps digit_char_def padStart_one truthy_str_def Let_def
      ex_new_doc_def ex_submission_def)
  from simultaneous_creations_collide[OF v n, of ex_now "[]"] runs
  show ?thesis by simp
qed

section \<open>The error map\<close>

lemma map_of_put_key:
  "map_of (put_key key msg es) k = (if k = key then Some msg else map_of es k)"
  by (induction es) auto

lemma fst_put_key:
  "fst ` set (put_key key msg es) = insert key (fst ` set es)"
  by (induction key msg es rule: put_key.induct) auto

lemma distinct_put_key:
  "distinct (map fst es) \<Longrightarrow> distinct (map fst (put_key key msg es))"
  by (induction key msg es rule: put_key.induct) (auto simp: fst_put_key)

lemma put_key_twice:
  "put_key key m2 (put_key key m1 es) = put_key key m2 es"
  by (induction es) auto

lemma map_of_set_error:
  "map_of (set_error key msg es) k =
     (if k = key \<and> key \<noteq> ''__proto__'' then Some msg else map_of es k)"
  by (simp add: set_error_def map_of_put_key)

lemma distinct_set_error:
  "distinct (map fst es) \<Longrightarrow> distinct (map fst (set_error key msg es))"
  by (simp add: set_error_def distinct_put_key)

lemma set_error_twice:
  "set_error key m2 (set_error key m1 es) = set_error key m2 es"
  by (simp add: set_error_def put_key_twice)

text \<open>The keys that are not ordinary: an error assigned under \<open>__proto__\<close> leaves the map as
  it was, and a key the form data does not own but every object inherits reads the
  inherited member, which is truthy.\<close>

lemma set_error_proto: "set_error ''__proto__'' msg es = es"
  by (simp add: set_error_def)

lemma get_inherited:
  "get [] ''constructor'' = JInherited ''constructor'' \<and> truthy (get [] ''constructor'')
   \<and> get [] ''other'' = JUndefined"
  by (simp add: get_def inherited_def object_members_def truthy_def)

lemma assign_Cons:
  "assign key ((c, msg) # cs) es = assign key cs (if c then set_error key msg es else es)"
  by (simp add: assign_def)

lemma assign_Nil: "assign key [] es = es"
  by (simp add: assign_def)

lemma assign_last:
  "assign key cs es =
     (if failed_messages cs = [] then es else set_error key (last (failed_messages cs)) es)"
proof (induction cs arbitrary: es)
  case Nil
  then show ?case by (simp add: assign_Nil failed_messages_def)
next
  case (Cons a cs)
  obtain c msg where a: "a = (c, msg)" by (cases a)
  show ?case
    by (simp add: a assign_Cons Cons.IH failed_messages_def set_error_twice)
qed

lemma map_of_assign_other:
  "k \<noteq> key \<Longrightarrow> map_of (assign key cs es) k = map_of es k"
  by (simp add: assign_last map_of_set_error)

lemma distinct_assign:
  "distinct (map fst es) \<Longrightarrow> distinct (map fst (assign key cs es))"
  by (simp add: assign_last distinct_set_error)

lemma validateField_other:
  "validateField H formData up ns fld es = Inr es' \<Longrightarrow> k \<noteq> f_id fld \<Longrightarrow>
     map_of es' k = map_of es k"
  by (auto simp: validateField_def map_of_assign_other split: if_splits sum.splits bool.splits)

lemma validateField_distinct:
  "validateField H formData up ns fld es = Inr es' \<Longrightarrow> distinct (map fst es) \<Longrightarrow>
     distinct (map fst es')"
  by (auto simp: validateField_def distinct_assign split: if_splits sum.splits bool.splits)

lemma validateField_skipped:
  "evaluateCondition H formData fld = Inr False \<Longrightarrow>
     validateField H formData up ns fld es = Inr es"
  by (simp add: validateField_def)

lemma validateField_visible:
  "\<not> hidden fld \<Longrightarrow> evaluateCondition H formData fld = Inr True \<Longrightarrow>
   field_checks H formData up ns fld = Inr cs \<Longrightarrow>
     validateField H formData up ns fld es = Inr (assign (f_id fld) cs es)"
  by (simp add: validateField_def)

lemma validateFields_other:
  "validateFields H formData up ns flds es = Inr es' \<Longrightarrow> k \<notin> f_id ` set flds \<Longrightarrow>
     map_of es' k = map_of es k"
proof (induction flds arbitrary: es)
  case Nil
  then show ?case by simp
next
  case (Cons fld flds)
  from Cons.prems(1) obtain es1 where
    one: "validateField H formData up ns fld es = Inr es1" and
    rest: "validateFields H formData up ns flds es1 = Inr es'"
    by (auto split: sum.splits)
  from Cons.prems(2) have "k \<noteq> f_id fld" "k \<notin> f_id ` set flds" by auto
  with Cons.IH[OF rest] validateField_other[OF one] show ?case by simp
qed

lemma validateFields_distinct:
  "validateFields H formData up ns flds es = Inr es' \<Longrightarrow> distinct (map fst es) \<Longrightarrow>
     distinct (map fst es')"
proof (induction flds arbitrary: es)
  case Nil
  then show ?case by simp
next
  case (Cons fld flds)
  from Cons.prems(1) obtain es1 where
    one: "validateField H formData up ns fld es = Inr es1" and
    rest: "validateFields H formData up ns flds es1 = Inr es'"
    by (auto split: sum.splits)
  from Cons.IH[OF rest] validateField_distinct[OF one Cons.prems(2)] show ?case by simp
qed

text \<open>The entry of a field with a unique id is the entry its own iteration leaves.\<close>

lemma validateFields_own:
  assumes "validateFields H formData up ns flds es = Inr es'"
    and "distinct (map f_id flds)" and "fld \<in> set flds"
  shows "\<exists>es0 es1. validateField H formData up ns fld es0 = Inr es1
            \<and> map_of es0 (f_id fld) = map_of es (f_id fld) \<and> map_of es' (f_id fld) = map_of es1 (f_id fld)"
  using assms
proof (induction flds arbitrary: es)
  case Nil
  then show ?case by simp
next
  case (Cons g flds)
  from Cons.prems(1) obtain es1 where
    one: "validateField H formData up ns g es = Inr es1" and
    rest: "validateFields H formData up ns flds es1 = Inr es'"
    by (auto split: sum.splits)
  show ?case
  proof (cases "g = fld")
    case True
    with Cons.prems(2) have "f_id fld \<notin> f_id ` set flds" by auto
    from validateFields_other[OF rest this] one True show ?thesis by blast
  next
    case False
    with Cons.prems have mem: "fld \<in> set flds" and dist: "distinct (map f_id flds)"
      and fresh: "f_id g \<notin> f_id ` set flds" by auto
    from mem fresh have ne: "f_id fld \<noteq> f_id g" by (auto simp: image_iff)
    from Cons.IH[OF rest dist mem] obtain a b where
      "validateField H formData up ns fld a = Inr b"
      "map_of a (f_id fld) = map_of es1 (f_id fld)" "map_of es' (f_id fld) = map_of b (f_id fld)"
      by blast
    moreover have "map_of es1 (f_id fld) = map_of es (f_id fld)"
      using validateField_other[OF one ne] .
    ultimately show ?thesis by auto
  qed
qed


lemma validateForm_fields:
  "validateForm H frm currentPage formData up ns = Inr errs \<Longrightarrow>
   currentFields frm currentPage = Inr flds \<Longrightarrow>
     validateFields H formData up ns flds [] = Inr errs"
  by (simp add: validateForm_def)

lemma one_entry:
  "distinct (map fst xs) \<Longrightarrow> map_of xs k = Some v \<Longrightarrow>
     length (filter (\<lambda>e. fst e = k) xs) = 1"
proof (induction xs)
  case Nil
  then show ?case by simp
next
  case (Cons x xs)
  show ?case
  proof (cases "fst x = k")
    case True
    with Cons.prems(1) have "k \<notin> fst ` set xs" by auto
    then have "filter (\<lambda>e. fst e = k) xs = []" by (auto simp: filter_empty_conv)
    with True show ?thesis by simp
  next
    case False
    with Cons.prems have "map_of xs k = Some v" "distinct (map fst xs)"
      by (cases x, auto)+
    with Cons.IH False show ?thesis by simp
  qed
qed

lemmas validate_defs =
  validateForm_def currentFields_def validateField_def evaluateCondition_def evalRule_def
  field_checks_def value_checks_def validation_checks_def nested_checks_def nested_length_def
  assign_def set_error_def required_missing_def get_def inherited_def object_members_def truthy_def isArray_def array_length_def nullish_def
  numToString_def showInt_def showNat.simps digit_char_def length_of_def toNumber_def
  truthy_num_def defined_def or_else_def truthy_str_def failed_messages_def Let_def

lemmas ex_client_defs =
  ex_host_def ex_field_def ex_details_def ex_form_a_def ex_data_a_def ex_code_validation_def
  ex_form_b_def ex_data_b_def ex_unknown_rule_def ex_guarded_def

text \<open>
  Claim C6. When the conditional rules of a field of the validated form are not satisfied,
  so that the field is hidden, the error map that \<open>validateForm\<close> produces has no entry
  for the field: no \<open>required\<close> error and no other. Field ids are unique within a form.
\<close>

theorem hidden_field_no_error:
  assumes v: "validateForm H frm currentPage formData uploadedFiles nestedSubmissions = Inr errs"
    and c: "currentFields frm currentPage = Inr flds"
    and mem: "fld \<in> set flds"
    and dist: "distinct (map f_id flds)"
    and hid: "evaluateCondition H formData fld = Inr False"
  shows "map_of errs (f_id fld) = None"
proof -
  from validateFields_own[OF validateForm_fields[OF v c] dist mem]
  obtain es0 es1 where
    one: "validateField H formData uploadedFiles nestedSubmissions fld es0 = Inr es1"
    and before: "map_of es0 (f_id fld) = map_of [] (f_id fld)"
    and after: "map_of errs (f_id fld) = map_of es1 (f_id fld)"
    by blast
  from one validateField_skipped[OF hid, of uploadedFiles nestedSubmissions es0]
  have "es1 = es0" by simp
  with before after show ?thesis by simp
qed

text \<open>Scenario A: the required field \<open>details\<close> is hidden while \<open>other\<close> is empty, and
  the form validates with both left blank.\<close>

theorem hidden_field_no_error_witness:
  "required ex_details \<and>
   get ex_data_a ''other'' = JStr [] \<and> get ex_data_a ''details'' = JStr [] \<and>
   evaluateCondition ex_host ex_data_a ex_details = Inr False \<and>
   validateForm ex_host (Some ex_form_a) 0 ex_data_a [] [] = Inr [] \<and>
   map_of ([] :: (string \<times> string) list) (f_id ex_details) = None"
proof -
  have v: "validateForm ex_host (Some ex_form_a) 0 ex_data_a [] [] = Inr []"
    by (simp add: validate_defs ex_client_defs)
  have c: "currentFields (Some ex_form_a) 0 = Inr [ex_field ''other'' False None None, ex_details]"
    by (simp add: currentFields_def ex_form_a_def)
  have mem: "ex_details \<in> set [ex_field ''other'' False None None, ex_details]" by simp
  have dist: "distinct (map f_id [ex_field ''other'' False None None, ex_details])"
    by (simp add: ex_field_def ex_details_def)
  have hid: "evaluateCondition ex_host ex_data_a ex_details = Inr False"
    by (simp add: validate_defs ex_client_defs)
  have r: "required ex_details" "get ex_data_a ''other'' = JStr []"
    "get ex_data_a ''details'' = JStr []"
    by (simp_all add: ex_details_def ex_field_def get_def ex_data_a_def)
  from hidden_field_no_error[OF v c mem dist hid] v hid r show ?thesis by simp
qed

text \<open>
  Claim C9, as amended. Each failing check of a field overwrites the message of the one
  before: for a visible field of the validated form whose value violates at least one
  rule, the error map holds exactly one entry for the field, and its message is that of
  the last failing rule in check order. Field ids are unique within a form, and the
  field's id is not \<open>__proto__\<close>: under that key an assignment to the error map creates no
  entry.
\<close>

theorem last_failing_rule_wins:
  assumes v: "validateForm H frm currentPage formData uploadedFiles nestedSubmissions = Inr errs"
    and c: "currentFields frm currentPage = Inr flds"
    and mem: "fld \<in> set flds"
    and dist: "distinct (map f_id flds)"
    and shown: "\<not> hidden fld" "evaluateCondition H formData fld = Inr True"
    and fc: "field_checks H formData uploadedFiles nestedSubmissions fld = Inr cs"
    and some: "failed_messages cs \<noteq> []"
    and key: "f_id fld \<noteq> ''__proto__''"
  shows "map_of errs (f_id fld) = Some (last (failed_messages cs)) \<and>
         length (filter (\<lambda>e. fst e = f_id fld) errs) = 1"
proof -
  have fields: "validateFields H formData uploadedFiles nestedSubmissions flds [] = Inr errs"
    using v c by (rule validateForm_fields)
  from validateFields_own[OF fields dist mem]
  obtain es0 es1 where
    one: "validateField H formData uploadedFiles nestedSubmissions fld es0 = Inr es1"
    and after: "map_of errs (f_id fld) = map_of es1 (f_id fld)"
    by blast
  from one validateField_visible[OF shown fc, of es0]
  have "es1 = assign (f_id fld) cs es0" by simp
  then have "map_of es1 (f_id fld) = Some (last (failed_messages cs))"
    using some key by (simp add: assign_last map_of_set_error)
  with after have entry: "map_of errs (f_id fld) = Some (last (failed_messages cs))" by simp
  have "distinct (map fst errs)"
    using validateFields_distinct[OF fields] by simp
  from one_entry[OF this entry] entry show ?thesis by simp
qed

text \<open>The value \<open>ab\<close> is shorter than five characters and is not a string of digits: the
  entry of the field is the message of the pattern, the later of the two failing rules.\<close>

theorem last_failing_rule_wins_witness:
  "validateForm ex_host (Some (ex_form_b ex_code_validation)) 0 ex_data_b [] []
     = Inr [(''code'', ''Invalid format'')] \<and>
   (case field_checks ex_host ex_data_b [] [] (ex_field ''code'' False (Some ex_code_validation) None) of
      Inl e \<Rightarrow> []
    | Inr cs \<Rightarrow> failed_messages cs) = [''Minimum 5 characters required'', ''Invalid format''] \<and>
   map_of [(''code'', ''Invalid format'')] (f_id (ex_field ''code'' False (Some ex_code_validation) None))
     = Some (last [''Minimum 5 characters required'', ''Invalid format'']) \<and>
   length (filter (\<lambda>e. fst e = f_id (ex_field ''code'' False (Some ex_code_validation) None))
             [(''code'', ''Invalid format'')]) = 1"
proof -
  let ?fld = "ex_field ''code'' False (Some ex_code_validation) None"
  have v: "validateForm ex_host (Some (ex_form_b ex_code_validation)) 0 ex_data_b [] []
             = Inr [(''code'', ''Invalid format'')]"
    by (simp add: validate_defs ex_client_defs)
  have c: "currentFields (Some (ex_form_b ex_code_validation)) 0 = Inr [?fld]"
    by (simp add: currentFields_def ex_form_b_def)
  have mem: "?fld \<in> set [?fld]" by simp
  have dist: "distinct (map f_id [?fld])" by simp
  have shown: "\<not> hidden ?fld" "evaluateCondition ex_host ex_data_b ?fld = Inr True"
    by (simp_all add: evaluateCondition_def ex_field_def)
  obtain cs where fc: "field_checks ex_host ex_data_b [] [] ?fld = Inr cs"
    and fm: "failed_messages cs = [''Minimum 5 characters required'', ''Invalid format'']"
    by (simp add: validate_defs ex_client_defs)
  have some: "failed_messages cs \<noteq> []" by (simp add: fm)
  have key: "f_id ?fld \<noteq> ''__proto__''" by (simp add: ex_field_def)
  from last_failing_rule_wins[OF v c mem dist shown fc some key] v fc fm
  show ?thesis by simp
qed

text \<open>
  A value that violates a length bound and a pattern: the length bound fails first in
  check order, and the error map holds the message of the pattern.
\<close>

theorem first_failing_rule_counterexample:
  "(case field_checks ex_host ex_data_b [] [] (ex_field ''code'' False (Some ex_code_validation) None) of
      Inl e \<Rightarrow> []
    | Inr cs \<Rightarrow> failed_messages cs) = [''Minimum 5 characters required'', ''Invalid format''] \<and>
   validateForm ex_host (Some (ex_form_b ex_code_validation)) 0 ex_data_b [] []
     = Inr [(''code'', ''Invalid format'')] \<and>
   validateForm ex_host (Some (ex_form_b (ex_code_validation\<lparr>v_pattern := None\<rparr>))) 0 ex_data_b [] []
     = Inr [(''code'', ''Minimum 5 characters required'')]"
  by (simp add: validate_defs ex_client_defs)

section \<open>Unrecognized operators\<close>

lemma evalRule_unknown: "r_operator r \<notin> set operators \<Longrightarrow> evalRule H formData r = Inr True"
  by (simp add: evalRule_def operators_def Let_def)

lemma evalRules_false:
  "evalRules H formData rs = Inr bs \<Longrightarrow> \<not> list_all (\<lambda>b. b) bs \<Longrightarrow>
     \<exists>r \<in> set rs. evalRule H formData r = Inr False"
proof (induction rs arbitrary: bs)
  case Nil
  then show ?case by simp
next
  case (Cons r rs)
  from Cons.prems(1) obtain b bs' where
    r: "evalRule H formData r = Inr b" and rs: "evalRules H formData rs = Inr bs'"
    and bs: "bs = b # bs'"
    by (auto split: sum.splits)
  show ?case
  proof (cases b)
    case True
    with Cons.prems(2) bs have "\<not> list_all (\<lambda>b. b) bs'" by simp
    from Cons.IH[OF rs this] show ?thesis by auto
  next
    case False
    with r show ?thesis by simp
  qed
qed

text \<open>
  Claim C10. A rule whose operator is none of the ten recognized ones evaluates to true.
  Under the AND combinator (the default) it therefore never hides the field: whenever
  \<open>evaluateCondition\<close> returns false, a rule with a recognized operator evaluated to false.
\<close>

theorem unknown_operator_satisfied:
  "(r_operator r \<notin> set operators \<longrightarrow> evalRule H formData r = Inr True) \<and>
   (conditional_of fld = Some c \<and> or_else (logicalOperator c) ''AND'' = ''AND''
      \<and> evaluateCondition H formData fld = Inr False \<longrightarrow>
      (\<exists>r' \<in> set (rules c). r_operator r' \<in> set operators \<and> evalRule H formData r' = Inr False))"
proof (intro conjI impI)
  assume "r_operator r \<notin> set operators"
  then show "evalRule H formData r = Inr True" by (rule evalRule_unknown)
next
  assume a: "conditional_of fld = Some c \<and> or_else (logicalOperator c) ''AND'' = ''AND''
      \<and> evaluateCondition H formData fld = Inr False"
  then obtain bs where bs: "evalRules H formData (rules c) = Inr bs" "\<not> list_all (\<lambda>b. b) bs"
    by (auto simp: evaluateCondition_def Let_def split: if_splits sum.splits)
  from evalRules_false[OF bs] obtain r' where
    r': "r' \<in> set (rules c)" "evalRule H formData r' = Inr False" by blast
  have "r_operator r' \<in> set operators"
  proof (rule ccontr)
    assume "r_operator r' \<notin> set operators"
    from evalRule_unknown[OF this, of H formData] r'(2) show False by simp
  qed
  with r' show "\<exists>r' \<in> set (rules c). r_operator r' \<in> set operators \<and> evalRule H formData r' = Inr False"
    by blast
qed

text \<open>The operator \<open>matches\<close> is not recognized: its rule is satisfied, alone it leaves the
  field shown, and the field of the example is hidden by its second rule, \<open>is_not_empty\<close>
  on an empty value.\<close>

theorem unknown_operator_satisfied_witness:
  "r_operator ex_unknown_rule = ''matches'' \<and>
   evalRule ex_host ex_data_a ex_unknown_rule = Inr True \<and>
   evaluateCondition ex_host ex_data_a
     (ex_field ''alone'' True None
        (Some \<lparr>enabled = True, rules = [ex_unknown_rule], logicalOperator = Some ''AND''\<rparr>))
     = Inr True \<and>
   evaluateCondition ex_host ex_data_a ex_guarded = Inr False \<and>
   evalRule ex_host ex_data_a
     \<lparr>r_field = ''other'', r_operator = ''is_not_empty'', r_value = JUndefined\<rparr> = Inr False"
proof -
  have u: "r_operator ex_unknown_rule \<notin> set operators"
    by (simp add: ex_unknown_rule_def operators_def)
  have h: "evaluateCondition ex_host ex_data_a ex_guarded = Inr False"
    by (simp add: validate_defs ex_client_defs)
  have a: "evaluateCondition ex_host ex_data_a
     (ex_field ''alone'' True None
        (Some \<lparr>enabled = True, rules = [ex_unknown_rule], logicalOperator = Some ''AND''\<rparr>))
     = Inr True"
    by (simp add: validate_defs ex_client_defs)
  have e: "evalRule ex_host ex_data_a
     \<lparr>r_field = ''other'', r_operator = ''is_not_empty'', r_value = JUndefined\<rparr> = Inr False"
    by (simp add: validate_defs ex_client_defs)
  have n: "r_operator ex_unknown_rule = ''matches''" by (simp add: ex_unknown_rule_def)
  from unknown_operator_satisfied[of ex_unknown_rule ex_host ex_data_a ex_guarded
         "\<lparr>enabled = True, rules = [ex_unknown_rule,
                       \<lparr>r_field = ''other'', r_operator = ''is_not_empty'', r_value = JUndefined\<rparr>],
              logicalOperator = Some ''AND''\<rparr>"] u h a e n
  show ?thesis by simp
qed

end
